theory Spec2Isabelle
  imports Complex_Main
begin

section \<open>Python exceptions and results\<close>

text \<open>
  Every \<^verbatim>\<open>raise\<close> of the Python source is a value: a function that can raise returns
  \<open>error + 'a\<close>, with \<open>Inl\<close> the exception that escapes.
\<close>

datatype error =
    KeyError | IndexError | TypeError | ValueError | RuntimeError
  | AttributeError | UnboundLocalError | ZeroDivisionError

definition ebind :: "'e + 'a \<Rightarrow> ('a \<Rightarrow> 'e + 'b) \<Rightarrow> 'e + 'b" where
  "ebind m f = (case m of Inl e \<Rightarrow> Inl e | Inr v \<Rightarrow> f v)"

section \<open>Tensors\<close>

text \<open>
  A tensor is its shape and its elements in row-major (contiguous) order. The elements
  are real numbers: the arithmetic of the model is exact, not floating point.
\<close>

record tensor =
  shape :: "nat list"
  vals :: "real list"

definition numel :: "tensor \<Rightarrow> nat" where
  "numel t = prod_list (shape t)"

definition wf_tensor :: "tensor \<Rightarrow> bool" where
  "wf_tensor t = (length (vals t) = numel t)"

text \<open>Row-major offsets of an index into a 4-D and a 5-D contiguous tensor.\<close>

definition off4 :: "nat \<Rightarrow> nat \<Rightarrow> nat \<Rightarrow> nat \<Rightarrow> nat \<Rightarrow> nat \<Rightarrow> nat \<Rightarrow> nat" where
  "off4 d1 d2 d3 i0 i1 i2 i3 = ((i0 * d1 + i1) * d2 + i2) * d3 + i3"

definition off5 ::
  "nat \<Rightarrow> nat \<Rightarrow> nat \<Rightarrow> nat \<Rightarrow> nat \<Rightarrow> nat \<Rightarrow> nat \<Rightarrow> nat \<Rightarrow> nat \<Rightarrow> nat" where
  "off5 d1 d2 d3 d4 i0 i1 i2 i3 i4 = (((i0 * d1 + i1) * d2 + i2) * d3 + i3) * d4 + i4"

definition at4 :: "tensor \<Rightarrow> nat \<Rightarrow> nat \<Rightarrow> nat \<Rightarrow> nat \<Rightarrow> real" where
  "at4 t i0 i1 i2 i3 =
     vals t ! off4 (shape t ! 1) (shape t ! 2) (shape t ! 3) i0 i1 i2 i3"

definition at5 :: "tensor \<Rightarrow> nat \<Rightarrow> nat \<Rightarrow> nat \<Rightarrow> nat \<Rightarrow> nat \<Rightarrow> real" where
  "at5 t i0 i1 i2 i3 i4 =
     vals t ! off5 (shape t ! 1) (shape t ! 2) (shape t ! 3) (shape t ! 4) i0 i1 i2 i3 i4"

definition at3 :: "tensor \<Rightarrow> nat \<Rightarrow> nat \<Rightarrow> nat \<Rightarrow> real" where
  "at3 t i0 i1 i2 = vals t ! ((i0 * (shape t ! 1) + i1) * (shape t ! 2) + i2)"

text \<open>
  The elements of a 5-D tensor produced by five nested loops, outermost index first.
\<close>

definition build5 ::
  "nat \<Rightarrow> nat \<Rightarrow> nat \<Rightarrow> nat \<Rightarrow> nat \<Rightarrow> (nat \<Rightarrow> nat \<Rightarrow> nat \<Rightarrow> nat \<Rightarrow> nat \<Rightarrow> 'a) \<Rightarrow> 'a list" where
  "build5 d0 d1 d2 d3 d4 f =
     concat (map (\<lambda>i0. concat (map (\<lambda>i1. concat (map (\<lambda>i2. concat (map (\<lambda>i3.
       map (\<lambda>i4. f i0 i1 i2 i3 i4) [0..<d4]) [0..<d3])) [0..<d2])) [0..<d1])) [0..<d0])"

text \<open>
  \<^verbatim>\<open>Tensor.view(*dims)\<close> on a contiguous tensor: the elements stay, the shape changes.
  One dimension may be \<open>-1\<close> and is then inferred; any other negative dimension, a
  second \<open>-1\<close>, an ambiguous or non-integral inferred dimension, and a shape whose
  number of elements differs from the tensor's raise \<^verbatim>\<open>RuntimeError\<close>.
\<close>

definition view :: "tensor \<Rightarrow> int list \<Rightarrow> error + tensor" where
  "view t dims =
     (if list_ex (\<lambda>d. d < - 1) dims then Inl RuntimeError
      else if 1 < length (filter (\<lambda>d. d = - 1) dims) then Inl RuntimeError
      else if list_ex (\<lambda>d. d = - 1) dims then
        (let p = prod_list (map nat (filter (\<lambda>d. 0 \<le> d) dims)) in
         if p = 0 then Inl RuntimeError
         else if numel t mod p = 0
           then Inr \<lparr>shape = map (\<lambda>d. if d = - 1 then numel t div p else nat d) dims,
                     vals = vals t\<rparr>
           else Inl RuntimeError)
      else if prod_list (map nat dims) = numel t
        then Inr \<lparr>shape = map nat dims, vals = vals t\<rparr>
        else Inl RuntimeError)"

text \<open>
  \<^verbatim>\<open>t.permute(0, 1, 3, 4, 2).contiguous()\<close>: the element at \<open>(b, a, y, x, c)\<close> of the
  result is the element at \<open>(b, a, c, y, x)\<close> of \<open>t\<close>, laid out afresh in row-major
  order. A tensor that is not 5-D raises.
\<close>

definition permute_01342 :: "tensor \<Rightarrow> error + tensor" where
  "permute_01342 t =
     (case shape t of
        [d0, d1, d2, d3, d4] \<Rightarrow>
          Inr \<lparr>shape = [d0, d1, d3, d4, d2],
               vals = build5 d0 d1 d3 d4 d2
                        (\<lambda>b a y x c. vals t ! off5 d1 d2 d3 d4 b a c y x)\<rparr>
      | _ \<Rightarrow> Inl RuntimeError)"

text \<open>
  An in-place update of the elements of a 5-D tensor, each new element computed from
  its index and its old value (a slice assignment leaves the elements outside the
  slice as they are).
\<close>

definition upd5 :: "(nat \<Rightarrow> nat \<Rightarrow> nat \<Rightarrow> nat \<Rightarrow> nat \<Rightarrow> real \<Rightarrow> real) \<Rightarrow> tensor \<Rightarrow> tensor" where
  "upd5 f t =
     t\<lparr>vals := build5 (shape t ! 0) (shape t ! 1) (shape t ! 2) (shape t ! 3) (shape t ! 4)
                  (\<lambda>b a y x c. f b a y x c (at5 t b a y x c))\<rparr>"

definition sigmoid :: "real \<Rightarrow> real" where
  "sigmoid v = 1 / (1 + exp (- v))"

section \<open>The detection head: \<^verbatim>\<open>YOLOLayer\<close>\<close>

text \<open>
  The grid geometry that \<^verbatim>\<open>create_grids\<close> caches on the layer: the pixel stride of a
  grid cell, the grid-origin offsets \<open>grid_xy\<close> of shape \<open>(1, 1, ny, nx, 2)\<close>, the
  anchor sizes \<open>anchor_wh\<close> of shape \<open>(1, na, 1, 1, 2)\<close> in grid-cell units, and the
  grid size \<open>ng\<close>. The attributes do not exist before the first call of
  \<^verbatim>\<open>create_grids\<close>: the field \<open>geom\<close> of the layer is \<open>None\<close> until then.
\<close>

record geometry =
  stride :: real
  grid_xy :: tensor
  anchor_wh :: tensor
  ng :: tensor

record yolo_layer =
  anchors :: "(real \<times> real) list"
  index :: int
  layers :: "int list"
  nl :: nat
  na :: nat
  nc :: int
  no :: int
  nx :: nat
  ny :: nat
  geom :: "geometry option"
  training :: bool

text \<open>
  Modelled from the spec: \<^verbatim>\<open>create_grids\<close> (imported from \<^verbatim>\<open>easydet/model/common.py\<close>,
  which is not among the sources). The spec's data model says that the grid geometry
  is \<open>nx\<close>, \<open>ny\<close>, the per-cell stride and the anchor tensor reshaped to the grid, and
  its detection head adds "the per-cell grid-origin offset" and multiplies by "the
  per-anchor width/height (already grid-cell-scaled)" and by "the per-cell pixel
  stride". So the call stores the grid size it is given, the grid origin \<open>(x, y)\<close> of
  every cell, and the anchors (in pixels) divided by the stride. How the stride is
  computed from the image size and the grid size is not in the spec: it is the
  parameter \<open>pixel_stride\<close>.
\<close>

definition create_grids ::
  "(nat list \<Rightarrow> nat \<times> nat \<Rightarrow> real) \<Rightarrow> yolo_layer \<Rightarrow> nat list \<Rightarrow> nat \<times> nat \<Rightarrow> yolo_layer" where
  "create_grids pixel_stride self image_size g =
     (let gx = fst g; gy = snd g; s = pixel_stride image_size g in
      self\<lparr>nx := gx, ny := gy,
           geom := Some \<lparr>
             stride = s,
             grid_xy = \<lparr>shape = [1, 1, gy, gx, 2],
                        vals = concat (map (\<lambda>y. concat (map (\<lambda>x. [real x, real y]) [0..<gx]))
                                        [0..<gy])\<rparr>,
             anchor_wh = \<lparr>shape = [1, length (anchors self), 1, 1, 2],
                          vals = concat (map (\<lambda>wh. [fst wh / s, snd wh / s]) (anchors self))\<rparr>,
             ng = \<lparr>shape = [2], vals = [real gx, real gy]\<rparr>\<rparr>\<rparr>)"

text \<open>Python indexing of a sequence: a negative index counts from the end.\<close>

definition py_nth :: "'a list \<Rightarrow> int \<Rightarrow> error + 'a" where
  "py_nth xs i =
     (if 0 \<le> i \<and> i < int (length xs) then Inr (xs ! nat i)
      else if i < 0 \<and> - int (length xs) \<le> i then Inr (xs ! nat (int (length xs) + i))
      else Inl IndexError)"

text \<open>
  \<^verbatim>\<open>YOLOLayer.__init__\<close>. A new \<^verbatim>\<open>nn.Module\<close> is in training mode. With
  \<^verbatim>\<open>ONNX_EXPORT\<close> (a constant of \<^verbatim>\<open>easydet/model/common.py\<close>, which is not among the
  sources: a parameter here) the grid is created at once for a fixed stride.
\<close>

definition YOLOLayer_init ::
  "bool \<Rightarrow> (nat list \<Rightarrow> nat \<times> nat \<Rightarrow> real) \<Rightarrow> (real \<times> real) list \<Rightarrow> int \<Rightarrow> nat list \<Rightarrow> int
     \<Rightarrow> int list \<Rightarrow> error + yolo_layer" where
  "YOLOLayer_init ONNX_EXPORT pixel_stride anchors' nc' img_size yolo_index layers' =
     (let self = \<lparr>anchors = anchors', index = yolo_index, layers = layers',
                  nl = length layers', na = length anchors', nc = nc', no = nc' + 5,
                  nx = 0, ny = 0, geom = None, training = True\<rparr>
      in if ONNX_EXPORT then
           ebind (py_nth [32, 16, 8 :: nat] yolo_index) (\<lambda>stride'.
           ebind (py_nth img_size 1) (\<lambda>w.
           ebind (py_nth img_size 0) (\<lambda>h.
             Inr (create_grids pixel_stride self img_size (w div stride', h div stride')))))
         else Inr self)"

text \<open>What \<^verbatim>\<open>YOLOLayer.forward\<close> returns in its three modes.\<close>

datatype yolo_out =
    Train tensor
  | Export tensor tensor tensor
  | Infer tensor tensor

text \<open>
  The inference branch. \<open>p\<close> is the reshaped prediction of shape
  \<open>(bs, na, ny, nx, no)\<close>; \<open>io\<close> is its clone, updated in place four times. Reading
  \<^verbatim>\<open>self.grid_xy\<close> before any \<^verbatim>\<open>create_grids\<close> raises \<^verbatim>\<open>AttributeError\<close>. The
  broadcasts are modelled for the shapes that \<^verbatim>\<open>create_grids\<close> produces, \<open>grid_xy\<close>
  of shape \<open>(1, 1, ny, nx, 2)\<close> and \<open>anchor_wh\<close> of shape \<open>(1, na, 1, 1, 2)\<close>, and for at
  least four outputs per anchor; anything else raises, as a failed broadcast does.
\<close>

definition decode_xy :: "geometry \<Rightarrow> tensor \<Rightarrow> tensor" where
  "decode_xy g = upd5 (\<lambda>b a y x c v. if c < 2 then sigmoid v + at5 (grid_xy g) 0 0 y x c else v)"

definition decode_wh :: "geometry \<Rightarrow> tensor \<Rightarrow> tensor" where
  "decode_wh g =
     upd5 (\<lambda>b a y x c v. if 2 \<le> c \<and> c < 4 then exp v * at5 (anchor_wh g) 0 a 0 0 (c - 2) else v)"

definition scale_box :: "geometry \<Rightarrow> tensor \<Rightarrow> tensor" where
  "scale_box g = upd5 (\<lambda>b a y x c v. if c < 4 then v * stride g else v)"

definition sigmoid_scores :: "tensor \<Rightarrow> tensor" where
  "sigmoid_scores = upd5 (\<lambda>b a y x c v. if 4 \<le> c then sigmoid v else v)"

definition infer_out :: "yolo_layer \<Rightarrow> nat \<Rightarrow> tensor \<Rightarrow> error + yolo_out" where
  "infer_out self bs p =
     (case geom self of
        None \<Rightarrow> Inl AttributeError
      | Some g \<Rightarrow>
          (case shape p of
             [d0, d1, d2, d3, d4] \<Rightarrow>
               if shape (grid_xy g) = [1, 1, d2, d3, 2] \<and> shape (anchor_wh g) = [1, d1, 1, 1, 2]
                  \<and> 4 \<le> d4
               then ebind (view (sigmoid_scores (scale_box g (decode_wh g (decode_xy g p))))
                             [int bs, - 1, no self])
                      (\<lambda>io. Inr (Infer io p))
               else Inl RuntimeError
           | _ \<Rightarrow> Inl RuntimeError))"

text \<open>
  The export branch works on 2-D tensors of \<open>m = na * nx * ny\<close> rows. \<open>cols2 a b\<close> is
  the column slice \<^verbatim>\<open>t[:, a:b]\<close> (a negative \<open>b\<close> counts from the end), \<open>bop2\<close> an
  elementwise operation with broadcasting of a column dimension of size 1.
\<close>

definition cols2 :: "nat \<Rightarrow> int \<Rightarrow> tensor \<Rightarrow> error + tensor" where
  "cols2 a b t =
     (case shape t of
        [m, k] \<Rightarrow>
          (let stop = (if b < 0 then nat (int k + b) else min (nat b) k);
               start = min a k;
               w = stop - start
           in Inr \<lparr>shape = [m, w],
                   vals = concat (map (\<lambda>r. map (\<lambda>c. vals t ! (r * k + start + c)) [0..<w])
                                   [0..<m])\<rparr>)
      | _ \<Rightarrow> Inl IndexError)"

definition bop2 :: "(real \<Rightarrow> real \<Rightarrow> real) \<Rightarrow> tensor \<Rightarrow> tensor \<Rightarrow> error + tensor" where
  "bop2 f s t =
     (case shape s of
        [m, j] \<Rightarrow>
          (case shape t of
             [m', k] \<Rightarrow>
               if m = m' \<and> (j = k \<or> j = 1 \<or> k = 1) then
                 (let w = (if j = 1 then k else j) in
                  Inr \<lparr>shape = [m, w],
                       vals = concat (map (\<lambda>r. map (\<lambda>c.
                                f (vals s ! (r * j + (if j = 1 then 0 else c)))
                                  (vals t ! (r * k + (if k = 1 then 0 else c)))) [0..<w])
                              [0..<m])\<rparr>)
               else Inl RuntimeError
           | _ \<Rightarrow> Inl RuntimeError)
      | _ \<Rightarrow> Inl RuntimeError)"

definition map_tensor :: "(real \<Rightarrow> real) \<Rightarrow> tensor \<Rightarrow> tensor" where
  "map_tensor f t = t\<lparr>vals := map f (vals t)\<rparr>"

definition export_out :: "yolo_layer \<Rightarrow> tensor \<Rightarrow> error + yolo_out" where
  "export_out self p =
     (case geom self of
        None \<Rightarrow> Inl AttributeError
      | Some g \<Rightarrow>
          (let m = na self * nx self * ny self in
           case shape (ng g) of
             [k] \<Rightarrow>
               (let ng' = \<lparr>shape = [m, k],
                           vals = concat (replicate m (map (\<lambda>v. 1 / v) (vals (ng g))))\<rparr> in
                case shape (grid_xy g) of
                  [g0, g1, g2, g3, g4] \<Rightarrow>
                    if g0 = 1 then
                      ebind (view \<lparr>shape = [1, g1 * na self, g2, g3, g4],
                                   vals = concat (replicate (na self) (vals (grid_xy g)))\<rparr>
                               [int m, 2]) (\<lambda>grid_xy'.
                      case shape (anchor_wh g) of
                        [a0, a1, a2, a3, a4] \<Rightarrow>
                          if a2 = 1 \<and> a3 = 1 then
                            ebind (view \<lparr>shape = [a0, a1, nx self, ny self, a4],
                                         vals = concat (map (\<lambda>i. concat (replicate (nx self * ny self)
                                                  (take a4 (drop (i * a4) (vals (anchor_wh g))))))
                                                [0..<a0 * a1])\<rparr>
                                     [int m, 2]) (\<lambda>awh.
                            ebind (bop2 (*) awh ng') (\<lambda>anchor_wh'.
                            ebind (view p [int m, no self]) (\<lambda>pred.
                            ebind (cols2 0 2 pred) (\<lambda>p01.
                            ebind (bop2 (+) (map_tensor sigmoid p01) grid_xy') (\<lambda>xy.
                            ebind (cols2 2 4 pred) (\<lambda>p23.
                            ebind (bop2 (*) (map_tensor exp p23) anchor_wh') (\<lambda>wh.
                            ebind (cols2 4 5 pred) (\<lambda>p4.
                            ebind (if nc self = 1 then Inr (map_tensor sigmoid p4)
                                   else ebind (cols2 5 (no self) pred) (\<lambda>p5.
                                          bop2 (*) (map_tensor sigmoid p5) (map_tensor sigmoid p4)))
                              (\<lambda>p_cls.
                            ebind (bop2 (*) xy ng') (\<lambda>xy'.
                              Inr (Export p_cls xy' wh)))))))))))
                          else Inl RuntimeError
                      | _ \<Rightarrow> Inl RuntimeError)
                    else Inl RuntimeError
                | _ \<Rightarrow> Inl RuntimeError)
           | _ \<Rightarrow> Inl RuntimeError))"

text \<open>
  \<^verbatim>\<open>YOLOLayer.forward\<close>. The branch under \<^verbatim>\<open>ASFF\<close> is dead code (\<^verbatim>\<open>ASFF = False\<close> is set
  on the line before), so the argument \<^verbatim>\<open>out\<close> is never read. The layer is mutable
  state: the function returns the layer after the call together with the result, also
  when the call raises after the grid was rebuilt. \<open>reshape_pred\<close> is the
  \<^verbatim>\<open>view(...).permute(0, 1, 3, 4, 2).contiguous()\<close> and the dispatch on the mode.
\<close>

definition reshape_pred :: "bool \<Rightarrow> yolo_layer \<Rightarrow> nat \<Rightarrow> tensor \<Rightarrow> error + yolo_out" where
  "reshape_pred ONNX_EXPORT self bs pred =
     ebind (view pred [int bs, int (na self), no self, int (ny self), int (nx self)]) (\<lambda>v.
     ebind (permute_01342 v) (\<lambda>p.
       if training self then Inr (Train p)
       else if ONNX_EXPORT then export_out self p
       else infer_out self bs p))"

definition YOLOLayer_forward ::
  "bool \<Rightarrow> (nat list \<Rightarrow> nat \<times> nat \<Rightarrow> real) \<Rightarrow> yolo_layer \<Rightarrow> tensor \<Rightarrow> nat list
     \<Rightarrow> yolo_layer \<times> (error + yolo_out)" where
  "YOLOLayer_forward ONNX_EXPORT pixel_stride self pred image_size =
     (if ONNX_EXPORT then (self, reshape_pred ONNX_EXPORT self 1 pred)
      else
        (case shape pred of
           [bs, ch, gy, gx] \<Rightarrow>
             (let self' = (if (nx self, ny self) \<noteq> (gx, gy)
                           then create_grids pixel_stride self image_size (gx, gy)
                           else self)
              in (self', reshape_pred ONNX_EXPORT self' bs pred))
         | _ \<Rightarrow> (self, Inl ValueError)))"

text \<open>
  The invariant of a layer between calls: \<open>na\<close> is the number of anchors, and the
  cached geometry, when there is one, is what \<^verbatim>\<open>create_grids\<close> builds for the cached
  grid size \<open>(nx, ny)\<close> and the cached stride; a layer without geometry has
  \<open>nx = ny = 0\<close>, as \<^verbatim>\<open>__init__\<close> leaves it.
\<close>

definition yolo_inv :: "yolo_layer \<Rightarrow> bool" where
  "yolo_inv self =
     (na self = length (anchors self) \<and>
      (case geom self of
         None \<Rightarrow> nx self = 0 \<and> ny self = 0
       | Some g \<Rightarrow> geom (create_grids (\<lambda>i n. stride g) self [] (nx self, ny self)) = Some g))"


text \<open>
  A small detection head and two feature maps, used to run the theorems on concrete
  inputs: one anchor, one class (six outputs per anchor), a grid of one row and two
  columns, and a grid of two rows and two columns.
\<close>

definition ex_head :: yolo_layer where
  "ex_head = \<lparr>anchors = [(10, 14)], index = 0, layers = [], nl = 0, na = 1, nc = 1, no = 6,
               nx = 0, ny = 0, geom = None, training = False\<rparr>"

definition ex_pred :: tensor where
  "ex_pred = \<lparr>shape = [1, 6, 1, 2], vals = [0, 0, 0, 0, 1, 2, 3, 4, 5, 6, 7, 8]\<rparr>"

definition ex_pred2 :: tensor where
  "ex_pred2 = \<lparr>shape = [1, 6, 2, 2], vals = replicate 24 0\<rparr>"

section \<open>Layer specifications\<close>

text \<open>
  \<^verbatim>\<open>parse_model_config\<close> (not among the sources) yields a list of dictionaries with
  string keys. The values the builder reads are integers (a flag is an integer),
  strings, lists of integers (layer references, the anchor mask) and the anchor table,
  a list of (width, height) pairs.
\<close>

datatype pyval =
    IntV int
  | StrV string
  | ListV "int list"
  | PairsV "(real \<times> real) list"

type_synonym pydict = "string \<Rightarrow> pyval option"

definition getitem :: "pydict \<Rightarrow> string \<Rightarrow> error + pyval" where
  "getitem d k = (case d k of None \<Rightarrow> Inl KeyError | Some v \<Rightarrow> Inr v)"

definition has_key :: "pydict \<Rightarrow> string \<Rightarrow> bool" where
  "has_key d k = (case d k of None \<Rightarrow> False | Some v \<Rightarrow> True)"

text \<open>The truth value of a Python object in an \<^verbatim>\<open>if\<close>.\<close>

definition truthy :: "pyval \<Rightarrow> bool" where
  "truthy v = (case v of IntV n \<Rightarrow> n \<noteq> 0 | StrV s \<Rightarrow> s \<noteq> [] | ListV l \<Rightarrow> l \<noteq> []
                | PairsV p \<Rightarrow> p \<noteq> [])"

text \<open>
  Where the source hands a value to integer arithmetic or to a constructor of the
  tensor library that needs an integer, anything else raises \<^verbatim>\<open>TypeError\<close>; likewise
  for a list of layer references and for the anchor table.
\<close>

definition as_int :: "pyval \<Rightarrow> error + int" where
  "as_int v = (case v of IntV n \<Rightarrow> Inr n | _ \<Rightarrow> Inl TypeError)"

definition as_list :: "pyval \<Rightarrow> error + int list" where
  "as_list v = (case v of ListV l \<Rightarrow> Inr l | _ \<Rightarrow> Inl TypeError)"

definition as_pairs :: "pyval \<Rightarrow> error + (real \<times> real) list" where
  "as_pairs v = (case v of PairsV p \<Rightarrow> Inr p | _ \<Rightarrow> Inl TypeError)"

text \<open>
  \<^verbatim>\<open>int(v)\<close>: an integer is itself; a list raises \<^verbatim>\<open>TypeError\<close>; a string is stripped
  of surrounding white space and must then be an optional sign followed by decimal
  digits, where single underscores may stand between digits; any other string raises
  \<^verbatim>\<open>ValueError\<close>. (Digits outside ASCII, which Python also accepts, are not modelled.)
\<close>

definition digit_val :: "char \<Rightarrow> nat" where
  "digit_val c = of_char c - 48"

definition is_digit :: "char \<Rightarrow> bool" where
  "is_digit c = (48 \<le> (of_char c :: nat) \<and> (of_char c :: nat) \<le> 57)"

definition is_blank :: "char \<Rightarrow> bool" where
  "is_blank c = ((of_char c :: nat) = 32 \<or> (9 \<le> (of_char c :: nat) \<and> (of_char c :: nat) \<le> 13))"

definition strip :: "string \<Rightarrow> string" where
  "strip s = rev (dropWhile is_blank (rev (dropWhile is_blank s)))"

fun valid_digits :: "string \<Rightarrow> bool" where
  "valid_digits [] = False"
| "valid_digits [c] = is_digit c"
| "valid_digits (c # d # cs) =
     (is_digit c \<and>
      (if d = CHR ''_'' then cs \<noteq> [] \<and> is_digit (hd cs) \<and> valid_digits cs
       else valid_digits (d # cs)))"

definition digits_val :: "string \<Rightarrow> nat" where
  "digits_val s = foldl (\<lambda>n c. 10 * n + digit_val c) 0 (filter is_digit s)"

definition py_int :: "pyval \<Rightarrow> error + int" where
  "py_int v =
     (case v of
        IntV n \<Rightarrow> Inr n
      | StrV s \<Rightarrow>
          (let t = strip s;
               body = (if t \<noteq> [] \<and> (hd t = CHR ''-'' \<or> hd t = CHR ''+'') then tl t else t) in
           if valid_digits body
           then Inr (if t \<noteq> [] \<and> hd t = CHR ''-'' then - int (digits_val body)
                     else int (digits_val body))
           else Inl ValueError)
      | _ \<Rightarrow> Inl TypeError)"

text \<open>\<^verbatim>\<open>v == "name"\<close> for a dictionary value \<open>v\<close>.\<close>

definition is_str :: "pyval \<Rightarrow> string \<Rightarrow> bool" where
  "is_str v s = (v = StrV s)"

section \<open>Modules\<close>

text \<open>
  The layer units the builder creates, with the constructor arguments the builder
  passes. A convolution or linear layer holds its bias, \<open>None\<close> when it is built with
  \<^verbatim>\<open>bias=False\<close>. A bias is a parameter tensor: its elements and its flag
  \<^verbatim>\<open>requires_grad\<close>.
\<close>

type_synonym param = "real list \<times> bool"

datatype sublayer =
    Conv2d int int int "int \<times> int" int int "param option"
  | BatchNorm2d int
  | LeakyReLU | ReLU | ReLU6 | Swish | Mish | HSwish | HSigmoid
  | ZeroPad2d
  | MaxPool2d int int int
  | AvgPool2d int int int
  | SeModule int
  | ShuffleBlock int
  | Linear int int "param option"

datatype module =
    Sequential "(string \<times> sublayer) list"
  | Pool sublayer
  | UpsampleSize "int list"
  | UpsampleScale pyval
  | WeightFeatureFusion "int list" bool
  | YOLOLayer yolo_layer

text \<open>
  The local variables of \<^verbatim>\<open>create_modules\<close> that live across loop iterations.
  \<open>loc_filters\<close> is \<open>None\<close> while the Python variable \<^verbatim>\<open>filters\<close> is unbound.
\<close>

record locals =
  loc_module_list :: "module list"
  loc_output_filters :: "int list"
  loc_routs :: "int list"
  loc_yolo_index :: int
  loc_filters :: "int option"

section \<open>The graph builder: \<^verbatim>\<open>create_modules\<close>\<close>

text \<open>\<^verbatim>\<open>xs[i] = v\<close> on a Python list: a negative index counts from the end.\<close>

definition py_set :: "'a list \<Rightarrow> int \<Rightarrow> 'a \<Rightarrow> error + 'a list" where
  "py_set xs i v =
     (if 0 \<le> i \<and> i < int (length xs) then Inr (xs[nat i := v])
      else if i < 0 \<and> - int (length xs) \<le> i then Inr (xs[nat (int (length xs) + i) := v])
      else Inl IndexError)"

text \<open>All the elements of a list of results, or the first error.\<close>

fun sequence :: "(error + 'a) list \<Rightarrow> error + 'a list" where
  "sequence [] = Inr []"
| "sequence (r # rs) = ebind r (\<lambda>v. ebind (sequence rs) (\<lambda>vs. Inr (v # vs)))"

definition activation_of :: "pyval \<Rightarrow> (string \<times> sublayer) list" where
  "activation_of a =
     (if is_str a ''leaky'' then [(''activation'', LeakyReLU)]
      else if is_str a ''relu'' then [(''activation'', ReLU)]
      else if is_str a ''relu6'' then [(''activation'', ReLU6)]
      else if is_str a ''swish'' then [(''activation'', Swish)]
      else if is_str a ''mish'' then [(''activation'', Mish)]
      else if is_str a ''hswish'' then [(''activation'', HSwish)]
      else if is_str a ''hsigmoid'' then [(''activation'', HSigmoid)]
      else [])"

text \<open>
  What the constructor \<^verbatim>\<open>nn.Conv2d\<close> checks before it allocates the layer: the number of
  groups is positive and divides both channel counts (\<^verbatim>\<open>ValueError\<close>), and no size of
  the weight tensor is negative (\<^verbatim>\<open>RuntimeError\<close>). A new layer's bias is a leaf
  parameter with \<^verbatim>\<open>requires_grad\<close> set.
\<close>

definition new_Conv2d ::
  "int \<Rightarrow> int \<Rightarrow> int \<Rightarrow> int \<times> int \<Rightarrow> int \<Rightarrow> int \<Rightarrow> real list option \<Rightarrow> error + sublayer" where
  "new_Conv2d cin cout k s p grp b =
     (if grp \<le> 0 then Inl ValueError
      else if cin mod grp \<noteq> 0 then Inl ValueError
      else if cout mod grp \<noteq> 0 then Inl ValueError
      else if cin < 0 \<or> cout < 0 \<or> k < 0 then Inl RuntimeError
      else Inr (Conv2d cin cout k s p grp (map_option (\<lambda>v. (v, True)) b)))"

text \<open>
  Each branch of the loop body returns the module_def it builds and the local variables
  after it. \<open>bias0 i n\<close> is the bias vector with which the tensor library initialises
  the convolution or linear layer of layer \<open>i\<close> with \<open>n\<close> outputs (random in the
  library, a parameter here).
\<close>

definition build_convolutional ::
  "(nat \<Rightarrow> int \<Rightarrow> real list) \<Rightarrow> nat \<Rightarrow> pydict \<Rightarrow> locals \<Rightarrow> error + module \<times> locals" where
  "build_convolutional bias0 i module_def st =
     ebind (getitem module_def ''batch_normalize'') (\<lambda>bn.
     ebind (if has_key module_def ''in_features'' then getitem module_def ''in_features''
            else ebind (py_nth (loc_output_filters st) (- 1)) (\<lambda>n. Inr (IntV n))) (\<lambda>in_channels.
     ebind (getitem module_def ''filters'') (\<lambda>filters.
     ebind (getitem module_def ''size'') (\<lambda>size.
     ebind (if has_key module_def ''stride''
            then ebind (getitem module_def ''stride'') (\<lambda>s. Inr (s, s))
            else ebind (getitem module_def ''stride_y'') (\<lambda>sy.
                 ebind (getitem module_def ''stride_x'') (\<lambda>sx. Inr (sy, sx)))) (\<lambda>stride.
     ebind (if has_key module_def ''groups'' then getitem module_def ''groups'' else Inr (IntV 1)) (\<lambda>groups.
     ebind (getitem module_def ''pad'') (\<lambda>pad.
     ebind (if truthy pad then ebind (as_int size) (\<lambda>k. Inr ((k - 1) div 2)) else Inr 0) (\<lambda>padding.
     ebind (as_int in_channels) (\<lambda>cin.
     ebind (as_int filters) (\<lambda>cout.
     ebind (as_int size) (\<lambda>k.
     ebind (as_int (fst stride)) (\<lambda>sy.
     ebind (as_int (snd stride)) (\<lambda>sx.
     ebind (as_int groups) (\<lambda>grp.
     ebind (new_Conv2d cin cout k (sy, sx) padding grp
              (if truthy bn then None else Some (bias0 i cout))) (\<lambda>conv.
     ebind (getitem module_def ''activation'') (\<lambda>act.
       Inr (Sequential
              ([(''Conv2d'', conv)]
               @ (if truthy bn then [(''BatchNorm2d'', BatchNorm2d cout)] else [])
               @ activation_of act),
            st\<lparr>loc_filters := Some cout,
                loc_routs := (if truthy bn then loc_routs st else loc_routs st @ [int i])\<rparr>)))))))))))))))))"

definition build_maxpool :: "pydict \<Rightarrow> locals \<Rightarrow> error + module \<times> locals" where
  "build_maxpool module_def st =
     ebind (getitem module_def ''size'') (\<lambda>size.
     ebind (getitem module_def ''stride'') (\<lambda>stride.
     ebind (as_int size) (\<lambda>k.
     ebind (as_int stride) (\<lambda>s.
       Inr (if k = 2 \<and> s = 1
            then Sequential [(''ZeroPad2d'', ZeroPad2d), (''MaxPool2d'', MaxPool2d k s ((k - 1) div 2))]
            else Pool (MaxPool2d k s ((k - 1) div 2)),
            st)))))"

definition build_avgpool :: "pydict \<Rightarrow> locals \<Rightarrow> error + module \<times> locals" where
  "build_avgpool module_def st =
     ebind (getitem module_def ''size'') (\<lambda>size.
     ebind (getitem module_def ''stride'') (\<lambda>stride.
     ebind (as_int size) (\<lambda>k.
     ebind (as_int stride) (\<lambda>s.
       Inr (Sequential [(''AvgPool2d'', AvgPool2d k s ((k - 1) div 2))], st)))))"

definition build_semodule :: "pydict \<Rightarrow> locals \<Rightarrow> error + module \<times> locals" where
  "build_semodule module_def st =
     ebind (getitem module_def ''in_features'') (\<lambda>in_channels.
     ebind (as_int in_channels) (\<lambda>cin.
       Inr (Sequential [(''SeModule'', SeModule cin)], st)))"

definition build_shuffle :: "pydict \<Rightarrow> locals \<Rightarrow> error + module \<times> locals" where
  "build_shuffle module_def st =
     ebind (getitem module_def ''groups'') (\<lambda>groups.
     ebind (as_int groups) (\<lambda>grp.
       Inr (Sequential [(''ShuffleBlock'', ShuffleBlock grp)], st)))"

definition build_dense ::
  "(nat \<Rightarrow> int \<Rightarrow> real list) \<Rightarrow> nat \<Rightarrow> pydict \<Rightarrow> locals \<Rightarrow> error + module \<times> locals" where
  "build_dense bias0 i module_def st =
     ebind (getitem module_def ''batch_normalize'') (\<lambda>bn.
     ebind (getitem module_def ''in_features'') (\<lambda>in_features.
     ebind (getitem module_def ''out_features'') (\<lambda>out_features.
     ebind (as_int in_features) (\<lambda>fin.
     ebind (as_int out_features) (\<lambda>fout.
       Inr (Sequential
              ([(''Linear'', Linear fin fout (if truthy bn then None else Some (bias0 i fout, True)))]
               @ (if truthy bn then [(''BatchNorm2d'', BatchNorm2d fout)] else [])),
            st))))))"

text \<open>
  With \<^verbatim>\<open>ONNX_EXPORT\<close> the upsampling size is \<^verbatim>\<open>int(x * g)\<close> for the gain
  \<^verbatim>\<open>g = (yolo_index + 1) * 2 / 32\<close>; the product is not negative, so the truncation is a
  floor.
\<close>

definition build_upsample ::
  "bool \<Rightarrow> nat list \<Rightarrow> pydict \<Rightarrow> locals \<Rightarrow> error + module \<times> locals" where
  "build_upsample ONNX_EXPORT image_size module_def st =
     (if ONNX_EXPORT
      then Inr (UpsampleSize (map (\<lambda>x. (int x * ((loc_yolo_index st + 1) * 2)) div 32) image_size),
                st)
      else ebind (getitem module_def ''stride'') (\<lambda>s. Inr (UpsampleScale s, st)))"

text \<open>
  The reference normalisation of \<^verbatim>\<open>route\<close> and \<^verbatim>\<open>shortcut\<close>:
  \<^verbatim>\<open>i + layer if layer < 0 else layer\<close> for the routed mask, and
  \<^verbatim>\<open>output_filters[layer + 1 if layer > 0 else layer]\<close> for the channel count.
\<close>

definition resolve_ref :: "nat \<Rightarrow> int \<Rightarrow> int" where
  "resolve_ref i layer = (if layer < 0 then int i + layer else layer)"

definition route_filters :: "int list \<Rightarrow> int list \<Rightarrow> error + int" where
  "route_filters output_filters ls =
     ebind (sequence (map (\<lambda>layer. py_nth output_filters (if layer > 0 then layer + 1 else layer)) ls))
       (\<lambda>fs. Inr (sum_list fs))"

definition build_route :: "nat \<Rightarrow> pydict \<Rightarrow> locals \<Rightarrow> error + module \<times> locals" where
  "build_route i module_def st =
     ebind (getitem module_def ''layers'') (\<lambda>lv.
     ebind (as_list lv) (\<lambda>ls.
     ebind (route_filters (loc_output_filters st) ls) (\<lambda>filters.
       Inr (Sequential [],
            st\<lparr>loc_filters := Some filters,
                loc_routs := loc_routs st @ map (resolve_ref i) ls\<rparr>))))"

definition build_shortcut :: "nat \<Rightarrow> pydict \<Rightarrow> locals \<Rightarrow> error + module \<times> locals" where
  "build_shortcut i module_def st =
     ebind (getitem module_def ''from'') (\<lambda>lv.
     ebind (py_nth (loc_output_filters st) (- 1)) (\<lambda>filters.
     ebind (as_list lv) (\<lambda>ls.
       Inr (WeightFeatureFusion ls (has_key module_def ''weights_type''),
            st\<lparr>loc_filters := Some filters,
                loc_routs := loc_routs st @ map (resolve_ref i) ls\<rparr>))))"

text \<open>
  The bias initialisation in the \<^verbatim>\<open>try\<close> block of the \<^verbatim>\<open>yolo\<close> branch. \<open>first_bias\<close> is
  \<^verbatim>\<open>module_list[j][0].bias\<close> followed by the slicing that needs a tensor: a module that
  is not a \<^verbatim>\<open>Sequential\<close> cannot be indexed, an empty \<^verbatim>\<open>Sequential\<close> has no element 0,
  a layer built with \<^verbatim>\<open>bias=False\<close> has the bias \<^verbatim>\<open>None\<close>, and the other first layers
  that the builder creates have no bias attribute.
\<close>

definition first_bias :: "module \<Rightarrow> error + param" where
  "first_bias m =
     (case m of
        Sequential [] \<Rightarrow> Inl IndexError
      | Sequential (l # ls) \<Rightarrow>
          (case snd l of
             Conv2d cin cout k s p g b \<Rightarrow> (case b of None \<Rightarrow> Inl TypeError | Some v \<Rightarrow> Inr v)
           | Linear fin fout b \<Rightarrow> (case b of None \<Rightarrow> Inl TypeError | Some v \<Rightarrow> Inr v)
           | _ \<Rightarrow> Inl AttributeError)
      | _ \<Rightarrow> Inl TypeError)"

definition set_first_bias :: "module \<Rightarrow> param \<Rightarrow> module" where
  "set_first_bias m v =
     (case m of
        Sequential (l # ls) \<Rightarrow>
          (case snd l of
             Conv2d cin cout k s p g b \<Rightarrow> Sequential ((fst l, Conv2d cin cout k s p g (Some v)) # ls)
           | Linear fin fout b \<Rightarrow> Sequential ((fst l, Linear fin fout (Some v)) # ls)
           | _ \<Rightarrow> m)
      | _ \<Rightarrow> m)"

definition mean :: "real list \<Rightarrow> real" where
  "mean xs = sum_list xs / real (length xs)"

text \<open>
  \<open>shift_bias rows n bo bc requires_grad bias'\<close>: the first \<open>n = no * na\<close> elements of
  \<open>bias'\<close> (the source's \<^verbatim>\<open>bias_\<close>) are viewed as \<open>rows = na\<close> rows (\<^verbatim>\<open>view(na, -1)\<close>, of
  width \<open>w\<close>); column 4 is to be shifted so that its mean is \<open>bo\<close>, then the columns from
  5 on so that their mean is \<open>bc\<close>. The updates are in place on a view of \<open>bias'\<close>: when
  \<open>bias'\<close> is a leaf parameter that requires grad, the first of them (\<^verbatim>\<open>bias[:, 4] += ...\<close>,
  after its operands are evaluated) raises \<^verbatim>\<open>RuntimeError\<close> in the tensor library.
  Otherwise the elements of \<open>bias'\<close> beyond the first \<open>n\<close> stay, and the mean of no
  elements is taken only when there is no element to update.
\<close>

definition obj_column :: "nat \<Rightarrow> nat \<Rightarrow> real list \<Rightarrow> real list" where
  "obj_column rows w b = map (\<lambda>a. b ! (a * w + 4)) [0..<rows]"

definition cls_block :: "nat \<Rightarrow> nat \<Rightarrow> real list \<Rightarrow> real list" where
  "cls_block rows w b = concat (map (\<lambda>a. map (\<lambda>c. b ! (a * w + c)) [5..<w]) [0..<rows])"

definition shift_bias ::
  "nat \<Rightarrow> nat \<Rightarrow> real \<Rightarrow> real \<Rightarrow> bool \<Rightarrow> real list \<Rightarrow> error + real list" where
  "shift_bias rows n bo bc requires_grad bias' =
     (let head = take n bias' in
      if rows = 0 then Inl RuntimeError
      else if length head mod rows \<noteq> 0 then Inl RuntimeError
      else
        (let w = length head div rows in
         if w \<le> 4 then Inl IndexError
         else if requires_grad then Inl RuntimeError
         else
           (let d4 = bo - mean (obj_column rows w head);
                head1 = map (\<lambda>k. if k mod w = 4 then head ! k + d4 else head ! k)
                          [0..<length head];
                dc = bc - mean (cls_block rows w head1);
                head2 = map (\<lambda>k. if 5 \<le> k mod w then head1 ! k + dc else head1 ! k)
                          [0..<length head]
            in Inr (head2 @ drop n bias'))))"

text \<open>
  The \<^verbatim>\<open>try\<close> block. \<^verbatim>\<open>math.log(1 / (nc - 0.99))\<close> raises \<^verbatim>\<open>ValueError\<close> when its argument
  is not positive, that is when \<open>nc \<le> 0\<close>. The last statement wraps the updated tensor
  in a new parameter with the same \<^verbatim>\<open>requires_grad\<close>. Every failure of the block happens
  before any element is changed, so a failed initialisation leaves the module list as
  it was.
\<close>

definition smart_bias_init ::
  "module list \<Rightarrow> yolo_layer \<Rightarrow> bool \<Rightarrow> int list \<Rightarrow> int \<Rightarrow> error + module list" where
  "smart_bias_init ml y has_from ls yolo_index =
     (if real_of_int (nc y) - 99 / 100 \<le> 0 then Inl ValueError
      else
        ebind (if has_from then py_nth ls yolo_index else Inr (- 1)) (\<lambda>j.
        ebind (py_nth ml j) (\<lambda>m.
        ebind (first_bias m) (\<lambda>bias'.
        ebind (shift_bias (na y) (nat (no y * int (na y))) (- 45 / 10)
                 (ln (1 / (real_of_int (nc y) - 99 / 100))) (snd bias') (fst bias')) (\<lambda>b.
          py_set ml j (set_first_bias m (b, snd bias')))))))"

definition build_yolo ::
  "bool \<Rightarrow> (nat list \<Rightarrow> nat \<times> nat \<Rightarrow> real) \<Rightarrow> nat list \<Rightarrow> pydict \<Rightarrow> locals
     \<Rightarrow> error + module \<times> locals" where
  "build_yolo ONNX_EXPORT pixel_stride image_size module_def st =
     (let yolo_index = loc_yolo_index st + 1 in
      ebind (if has_key module_def ''from'' then ebind (getitem module_def ''from'') as_list
             else Inr []) (\<lambda>ls.
      ebind (getitem module_def ''anchors'') (\<lambda>av.
      ebind (getitem module_def ''mask'') (\<lambda>mv.
      ebind (as_pairs av) (\<lambda>table.
      ebind (as_list mv) (\<lambda>mask.
      ebind (sequence (map (py_nth table) mask)) (\<lambda>anchors'.
      ebind (getitem module_def ''classes'') (\<lambda>cv.
      ebind (as_int cv) (\<lambda>nc'.
      ebind (YOLOLayer_init ONNX_EXPORT pixel_stride anchors' nc' image_size yolo_index ls) (\<lambda>y.
        Inr (YOLOLayer y,
             st\<lparr>loc_yolo_index := yolo_index,
                 loc_module_list :=
                   (case smart_bias_init (loc_module_list st) y (has_key module_def ''from'') ls
                           yolo_index of
                      Inl e \<Rightarrow> loc_module_list st
                    | Inr ml \<Rightarrow> ml)\<rparr>)))))))))))"

text \<open>
  One iteration of the loop: the dispatch on \<^verbatim>\<open>module["type"]\<close>, then
  \<^verbatim>\<open>module_list.append(modules)\<close> and \<^verbatim>\<open>output_filters.append(filters)\<close>. An
  unrecognised type prints a warning and keeps the empty \<^verbatim>\<open>nn.Sequential()\<close>. Reading
  \<^verbatim>\<open>filters\<close> while no earlier branch has assigned it raises \<^verbatim>\<open>UnboundLocalError\<close>.
\<close>

definition build_branch ::
  "bool \<Rightarrow> (nat list \<Rightarrow> nat \<times> nat \<Rightarrow> real) \<Rightarrow> (nat \<Rightarrow> int \<Rightarrow> real list) \<Rightarrow> nat list
     \<Rightarrow> nat \<Rightarrow> pydict \<Rightarrow> locals \<Rightarrow> error + module \<times> locals" where
  "build_branch ONNX_EXPORT pixel_stride bias0 image_size i module_def st =
     ebind (getitem module_def ''type'') (\<lambda>t.
       if is_str t ''convolutional'' then build_convolutional bias0 i module_def st
       else if is_str t ''maxpool'' then build_maxpool module_def st
       else if is_str t ''avgpool'' then build_avgpool module_def st
       else if is_str t ''semodule'' then build_semodule module_def st
       else if is_str t ''shuffle'' then build_shuffle module_def st
       else if is_str t ''dense'' then build_dense bias0 i module_def st
       else if is_str t ''upsample'' then build_upsample ONNX_EXPORT image_size module_def st
       else if is_str t ''route'' then build_route i module_def st
       else if is_str t ''shortcut'' then build_shortcut i module_def st
       else if is_str t ''yolo'' then build_yolo ONNX_EXPORT pixel_stride image_size module_def st
       else Inr (Sequential [], st))"

definition build_layer ::
  "bool \<Rightarrow> (nat list \<Rightarrow> nat \<times> nat \<Rightarrow> real) \<Rightarrow> (nat \<Rightarrow> int \<Rightarrow> real list) \<Rightarrow> nat list
     \<Rightarrow> nat \<Rightarrow> pydict \<Rightarrow> locals \<Rightarrow> error + locals" where
  "build_layer ONNX_EXPORT pixel_stride bias0 image_size i module_def st =
     ebind (build_branch ONNX_EXPORT pixel_stride bias0 image_size i module_def st) (\<lambda>r.
       case loc_filters (snd r) of
         None \<Rightarrow> Inl UnboundLocalError
       | Some filters \<Rightarrow>
           Inr ((snd r)\<lparr>loc_module_list := loc_module_list (snd r) @ [fst r],
                        loc_output_filters := loc_output_filters (snd r) @ [filters]\<rparr>))"

fun build_loop ::
  "bool \<Rightarrow> (nat list \<Rightarrow> nat \<times> nat \<Rightarrow> real) \<Rightarrow> (nat \<Rightarrow> int \<Rightarrow> real list) \<Rightarrow> nat list
     \<Rightarrow> nat \<Rightarrow> pydict list \<Rightarrow> locals \<Rightarrow> error + locals" where
  "build_loop ONNX_EXPORT pixel_stride bias0 image_size i [] st = Inr st"
| "build_loop ONNX_EXPORT pixel_stride bias0 image_size i (module_def # rest) st =
     ebind (build_layer ONNX_EXPORT pixel_stride bias0 image_size i module_def st)
       (build_loop ONNX_EXPORT pixel_stride bias0 image_size (Suc i) rest)"

text \<open>\<^verbatim>\<open>for i in routs: routs_binary[i] = True\<close>.\<close>

fun mark_routs :: "int list \<Rightarrow> bool list \<Rightarrow> error + bool list" where
  "mark_routs [] routs_binary = Inr routs_binary"
| "mark_routs (i # is) routs_binary = ebind (py_set routs_binary i True) (mark_routs is)"

text \<open>
  \<^verbatim>\<open>create_modules\<close>. The list \<^verbatim>\<open>module_defines\<close> is the caller's object and
  \<^verbatim>\<open>pop(0)\<close> mutates it: the function returns the list after the call together with its
  result (or the exception). \<^verbatim>\<open>[False] * (i + 1)\<close> reads the loop variable \<^verbatim>\<open>i\<close>, which is
  unbound when the loop body never ran.
\<close>

definition initial_locals :: "int \<Rightarrow> locals" where
  "initial_locals channels =
     \<lparr>loc_module_list = [], loc_output_filters = [channels], loc_routs = [],
      loc_yolo_index = - 1, loc_filters = None\<rparr>"

definition create_modules ::
  "bool \<Rightarrow> (nat list \<Rightarrow> nat \<times> nat \<Rightarrow> real) \<Rightarrow> (nat \<Rightarrow> int \<Rightarrow> real list) \<Rightarrow> pydict list
     \<Rightarrow> nat list \<Rightarrow> pydict list \<times> (error + module list \<times> bool list)" where
  "create_modules ONNX_EXPORT pixel_stride bias0 module_defines image_size =
     (case module_defines of
        [] \<Rightarrow> ([], Inl IndexError)
      | hyper_params # defs \<Rightarrow>
          (defs,
           ebind (getitem hyper_params ''channels'') (\<lambda>c.
           ebind (py_int c) (\<lambda>channels.
           ebind (build_loop ONNX_EXPORT pixel_stride bias0 image_size 0 defs
                    (initial_locals channels)) (\<lambda>st.
             if defs = [] then Inl UnboundLocalError
             else ebind (mark_routs (loc_routs st) (replicate (length defs) False))
                    (\<lambda>routs_binary. Inr (loc_module_list st, routs_binary)))))))"

section \<open>The model graph: \<^verbatim>\<open>Darknet\<close>\<close>

text \<open>
  \<^verbatim>\<open>get_yolo_layers\<close>: the indices of the \<^verbatim>\<open>yolo\<close> specifications.
\<close>

definition get_yolo_layers :: "pydict list \<Rightarrow> error + nat list" where
  "get_yolo_layers module_defines =
     ebind (sequence (map (\<lambda>x. getitem x ''type'') module_defines)) (\<lambda>ts.
       Inr (map fst (filter (\<lambda>p. is_str (snd p) ''yolo'') (zip [0..<length ts] ts))))"

record darknet =
  module_defines :: "pydict list"
  module_list :: "module list"
  routs :: "bool list"
  yolo_layers :: "nat list"
  version :: "int list"
  seen :: "int list"
  net_training :: bool

text \<open>
  \<^verbatim>\<open>Darknet.__init__\<close>. Its argument here is the list that \<^verbatim>\<open>parse_model_config\<close> (not
  among the sources) returns for the configuration file; \<^verbatim>\<open>self.module_defines\<close> is that
  list object, so after \<^verbatim>\<open>create_modules\<close> it is the list as the builder left it.
  Printing the model description has no effect on the state.
\<close>

definition Darknet_init ::
  "bool \<Rightarrow> (nat list \<Rightarrow> nat \<times> nat \<Rightarrow> real) \<Rightarrow> (nat \<Rightarrow> int \<Rightarrow> real list) \<Rightarrow> pydict list
     \<Rightarrow> nat list \<Rightarrow> error + darknet" where
  "Darknet_init ONNX_EXPORT pixel_stride bias0 parsed image_size =
     (case create_modules ONNX_EXPORT pixel_stride bias0 parsed image_size of
        (defs, Inl e) \<Rightarrow> Inl e
      | (defs, Inr r) \<Rightarrow>
          ebind (get_yolo_layers defs) (\<lambda>ys.
            Inr \<lparr>module_defines = defs, module_list = fst r, routs = snd r, yolo_layers = ys,
                 version = [0, 2, 5], seen = [0], net_training = True\<rparr>))"

text \<open>Layer specifications used to run the builder on concrete inputs.\<close>

definition ex_hyper :: pydict where
  "ex_hyper = map_of [(''channels'', IntV 3)]"

definition ex_conv :: "int \<Rightarrow> int \<Rightarrow> pydict" where
  "ex_conv bn f = map_of [(''type'', StrV ''convolutional''), (''batch_normalize'', IntV bn),
                          (''filters'', IntV f), (''size'', IntV 3), (''stride'', IntV 1),
                          (''pad'', IntV 1), (''activation'', StrV ''leaky'')]"

definition ex_route :: "int list \<Rightarrow> pydict" where
  "ex_route ls = map_of [(''type'', StrV ''route''), (''layers'', ListV ls)]"

definition ex_maxpool :: pydict where
  "ex_maxpool = map_of [(''type'', StrV ''maxpool''), (''size'', IntV 2), (''stride'', IntV 2)]"

definition ex_unknown :: pydict where
  "ex_unknown = map_of [(''type'', StrV ''foo'')]"




section \<open>The forward pass: \<^verbatim>\<open>Darknet.forward\<close>\<close>

text \<open>
  The current value \<^verbatim>\<open>x\<close> and the entries of the output history \<^verbatim>\<open>out\<close> are tensors or
  the empty list \<^verbatim>\<open>[]\<close> that stands for an output that is not kept.
\<close>

datatype tval = Tens tensor | Placeholder

text \<open>
  The operations of the tensor library and of \<^verbatim>\<open>easydet/model/fuse.py\<close> (not among the
  sources) that the forward pass calls are parameters: applying a built module to a
  value, \<^verbatim>\<open>WeightFeatureFusion.forward\<close>, \<^verbatim>\<open>torch.cat\<close> along a dimension, and
  \<^verbatim>\<open>F.interpolate\<close> with scale factor one half. Each may raise.
\<close>

record ops =
  apply_module :: "module \<Rightarrow> tval \<Rightarrow> error + tval"
  fusion :: "module \<Rightarrow> tval \<Rightarrow> tval list \<Rightarrow> error + tval"
  torch_cat :: "tval list \<Rightarrow> nat \<Rightarrow> error + tval"
  interpolate_half :: "tval \<Rightarrow> error + tval"

text \<open>
  The local variables of the loop, and the modules, whose detection heads cache their
  grid. An exception leaves the loop with the modules as they are at that moment.
\<close>

record fwd_state =
  fx :: tval
  fout :: "tval list"
  fyolo_out :: "yolo_out list"
  fmods :: "module list"

definition raise_with :: "module list \<Rightarrow> error + 'a \<Rightarrow> (error \<times> module list) + 'a" where
  "raise_with ms r = (case r of Inl e \<Rightarrow> Inl (e, ms) | Inr v \<Rightarrow> Inr v)"

text \<open>
  The \<^verbatim>\<open>route\<close> branch with more than one reference (or none): concatenate, and on any
  exception halve \<^verbatim>\<open>out[layers[1]]\<close> in place and concatenate again.
\<close>

definition route_cat :: "ops \<Rightarrow> int list \<Rightarrow> tval list \<Rightarrow> error + tval \<times> tval list" where
  "route_cat ops ls out =
     (case ebind (sequence (map (py_nth out) ls)) (\<lambda>vs. torch_cat ops vs 1) of
        Inr x \<Rightarrow> Inr (x, out)
      | Inl e \<Rightarrow>
          ebind (py_nth ls 1) (\<lambda>l1.
          ebind (py_nth out l1) (\<lambda>o1.
          ebind (interpolate_half ops o1) (\<lambda>h.
          ebind (py_set out l1 h) (\<lambda>out'.
          ebind (sequence (map (py_nth out') ls)) (\<lambda>vs.
          ebind (torch_cat ops vs 1) (\<lambda>x. Inr (x, out'))))))))"

text \<open>
  The body of the loop up to the final \<^verbatim>\<open>out.append\<close>: it yields the new \<^verbatim>\<open>x\<close>, \<^verbatim>\<open>out\<close>,
  \<^verbatim>\<open>yolo_out\<close> and modules. A layer type outside the four cases leaves everything as it
  is. The detection head needs a tensor and a \<^verbatim>\<open>YOLOLayer\<close> module.
\<close>

definition forward_branch ::
  "ops \<Rightarrow> bool \<Rightarrow> (nat list \<Rightarrow> nat \<times> nat \<Rightarrow> real) \<Rightarrow> nat list \<Rightarrow> nat \<Rightarrow> pydict \<Rightarrow> fwd_state
     \<Rightarrow> (error \<times> module list) + fwd_state" where
  "forward_branch ops ONNX_EXPORT pixel_stride image_size i module_define st =
     ebind (raise_with (fmods st) (getitem module_define ''type'')) (\<lambda>module_type.
       if is_str module_type ''convolutional'' \<or> is_str module_type ''upsample''
          \<or> is_str module_type ''maxpool''
       then ebind (raise_with (fmods st) (apply_module ops (fmods st ! i) (fx st)))
              (\<lambda>x. Inr (st\<lparr>fx := x\<rparr>))
       else if is_str module_type ''shortcut''
       then ebind (raise_with (fmods st) (fusion ops (fmods st ! i) (fx st) (fout st)))
              (\<lambda>x. Inr (st\<lparr>fx := x\<rparr>))
       else if is_str module_type ''route''
       then ebind (raise_with (fmods st) (ebind (getitem module_define ''layers'') as_list)) (\<lambda>ls.
              if length ls = 1
              then ebind (raise_with (fmods st) (ebind (py_nth ls 0) (py_nth (fout st))))
                     (\<lambda>x. Inr (st\<lparr>fx := x\<rparr>))
              else ebind (raise_with (fmods st) (route_cat ops ls (fout st)))
                     (\<lambda>r. Inr (st\<lparr>fx := fst r, fout := snd r\<rparr>)))
       else if is_str module_type ''yolo''
       then (case fmods st ! i of
               YOLOLayer y \<Rightarrow>
                 (case fx st of
                    Tens t \<Rightarrow>
                      (case YOLOLayer_forward ONNX_EXPORT pixel_stride y t image_size of
                         (y', Inl e) \<Rightarrow> Inl (e, (fmods st)[i := YOLOLayer y'])
                       | (y', Inr r) \<Rightarrow>
                           Inr (st\<lparr>fyolo_out := fyolo_out st @ [r],
                                   fmods := (fmods st)[i := YOLOLayer y']\<rparr>))
                  | Placeholder \<Rightarrow> Inl (AttributeError, fmods st))
             | _ \<Rightarrow> Inl (TypeError, fmods st))
       else Inr st)"

text \<open>One iteration: the branch, then \<^verbatim>\<open>out.append(x if self.routs[i] else [])\<close>.\<close>

definition forward_step ::
  "ops \<Rightarrow> bool \<Rightarrow> (nat list \<Rightarrow> nat \<times> nat \<Rightarrow> real) \<Rightarrow> bool list \<Rightarrow> nat list \<Rightarrow> nat \<Rightarrow> pydict
     \<Rightarrow> fwd_state \<Rightarrow> (error \<times> module list) + fwd_state" where
  "forward_step ops ONNX_EXPORT pixel_stride routs' image_size i module_define st =
     ebind (forward_branch ops ONNX_EXPORT pixel_stride image_size i module_define st) (\<lambda>s.
     ebind (raise_with (fmods s) (py_nth routs' (int i))) (\<lambda>keep.
       Inr (s\<lparr>fout := fout s @ [if keep then fx s else Placeholder]\<rparr>)))"

fun forward_loop ::
  "ops \<Rightarrow> bool \<Rightarrow> (nat list \<Rightarrow> nat \<times> nat \<Rightarrow> real) \<Rightarrow> bool list \<Rightarrow> nat list \<Rightarrow> nat \<Rightarrow> pydict list
     \<Rightarrow> fwd_state \<Rightarrow> (error \<times> module list) + fwd_state" where
  "forward_loop ops ONNX_EXPORT pixel_stride routs' image_size i [] st = Inr st"
| "forward_loop ops ONNX_EXPORT pixel_stride routs' image_size i (module_define # rest) st =
     ebind (forward_step ops ONNX_EXPORT pixel_stride routs' image_size i module_define st)
       (forward_loop ops ONNX_EXPORT pixel_stride routs' image_size (Suc i) rest)"

text \<open>
  The state of the loop when a call of \<^verbatim>\<open>forward\<close> begins (\<^verbatim>\<open>yolo_out, out = [], []\<close>: both
  lists are new objects of this call), and the state after the first \<open>k\<close> iterations.
  The loop runs over \<^verbatim>\<open>zip(self.module_defines, self.module_list)\<close>, which stops with the
  shorter list. \<^verbatim>\<open>image_size\<close> is \<^verbatim>\<open>x.shape[-2:]\<close>.
\<close>

definition initial_state :: "darknet \<Rightarrow> tensor \<Rightarrow> fwd_state" where
  "initial_state self x = \<lparr>fx = Tens x, fout = [], fyolo_out = [], fmods = module_list self\<rparr>"

definition forward_prefix ::
  "ops \<Rightarrow> bool \<Rightarrow> (nat list \<Rightarrow> nat \<times> nat \<Rightarrow> real) \<Rightarrow> darknet \<Rightarrow> tensor \<Rightarrow> nat
     \<Rightarrow> (error \<times> module list) + fwd_state" where
  "forward_prefix ops ONNX_EXPORT pixel_stride self x k =
     forward_loop ops ONNX_EXPORT pixel_stride (routs self)
       (drop (length (shape x) - 2) (shape x)) 0
       (take k (take (length (module_list self)) (module_defines self)))
       (initial_state self x)"

text \<open>
  What \<^verbatim>\<open>forward\<close> returns in its three modes. The detection heads are children of the
  model and share its mode; in test and export mode a head's result of another mode
  is not modelled and raises.
\<close>

datatype net_out =
    TrainOut "yolo_out list"
  | ExportOut tval tval
  | TestOut tval "tensor list"

fun infer_parts :: "yolo_out list \<Rightarrow> error + (tensor \<times> tensor) list" where
  "infer_parts [] = Inr []"
| "infer_parts (Infer io p # rs) = ebind (infer_parts rs) (\<lambda>ps. Inr ((io, p) # ps))"
| "infer_parts (r # rs) = Inl ValueError"

fun export_parts :: "yolo_out list \<Rightarrow> error + (tensor \<times> tensor \<times> tensor) list" where
  "export_parts [] = Inr []"
| "export_parts (Export c xy wh # rs) = ebind (export_parts rs) (\<lambda>ps. Inr ((c, xy, wh) # ps))"
| "export_parts (r # rs) = Inl ValueError"

definition forward_result :: "ops \<Rightarrow> bool \<Rightarrow> bool \<Rightarrow> yolo_out list \<Rightarrow> error + net_out" where
  "forward_result ops ONNX_EXPORT train yolo_out =
     (if train then Inr (TrainOut yolo_out)
      else if ONNX_EXPORT then
        ebind (export_parts yolo_out) (\<lambda>ps.
          if ps = [] then Inl IndexError
          else
            ebind (torch_cat ops (map (\<lambda>p. Tens (fst p)) ps) 0) (\<lambda>x0.
            ebind (torch_cat ops (map (\<lambda>p. Tens (fst (snd p))) ps) 0) (\<lambda>x1.
            ebind (torch_cat ops (map (\<lambda>p. Tens (snd (snd p))) ps) 0) (\<lambda>x2.
            ebind (torch_cat ops [x1, x2] 1) (\<lambda>boxes. Inr (ExportOut x0 boxes))))))
      else
        ebind (infer_parts yolo_out) (\<lambda>ps.
          if ps = [] then Inl ValueError
          else ebind (torch_cat ops (map (\<lambda>p. Tens (fst p)) ps) 1)
                 (\<lambda>io. Inr (TestOut io (map snd ps)))))"

text \<open>
  \<^verbatim>\<open>Darknet.forward\<close>: the model after the call (only the grid caches of its detection
  heads can have changed) and the result. The output history is not part of either.
\<close>

definition Darknet_forward ::
  "ops \<Rightarrow> bool \<Rightarrow> (nat list \<Rightarrow> nat \<times> nat \<Rightarrow> real) \<Rightarrow> darknet \<Rightarrow> tensor
     \<Rightarrow> darknet \<times> (error + net_out)" where
  "Darknet_forward ops ONNX_EXPORT pixel_stride self x =
     (case forward_prefix ops ONNX_EXPORT pixel_stride self x (length (module_list self)) of
        Inl em \<Rightarrow> (self\<lparr>module_list := snd em\<rparr>, Inl (fst em))
      | Inr st \<Rightarrow>
          (self\<lparr>module_list := fmods st\<rparr>,
           forward_result ops ONNX_EXPORT (net_training self) (fyolo_out st)))"



section \<open>The training loop: \<^verbatim>\<open>train\<close>\<close>

text \<open>
  A Python float is a finite number, an infinity or not-a-number; \<^verbatim>\<open>torch.isfinite\<close>
  holds of the finite ones only.
\<close>

datatype pyfloat = Finite real | PosInf | NegInf | NaN

definition isfinite :: "pyfloat \<Rightarrow> bool" where
  "isfinite v = (case v of Finite r \<Rightarrow> True | _ \<Rightarrow> False)"

text \<open>
  The control flow of \<^verbatim>\<open>train\<close> from the start of the epoch loop on. What it needs from
  outside is a parameter: the command-line arguments, the number of batches of the
  data loader, the total loss that \<^verbatim>\<open>compute_loss\<close> gives for the batch \<open>idx\<close> of an
  epoch, the results that \<^verbatim>\<open>evaluate\<close> gives after an epoch, and \<^verbatim>\<open>fitness\<close>. The effects
  on the optimizer, the scheduler and the checkpoint files are recorded as events, in
  order.
\<close>

record train_env =
  epochs :: nat
  start_epoch :: nat
  accumulate :: int
  notest :: bool
  nosave :: bool
  evolve :: bool
  batches_num :: nat
  loss_at :: "nat \<Rightarrow> nat \<Rightarrow> pyfloat"
  evaluate :: "nat \<Rightarrow> real list"
  fitness :: "real list \<Rightarrow> real"

datatype event =
    Backward nat
  | OptimizerStep nat
  | SchedulerStep nat
  | Evaluate nat
  | SaveCheckpoint nat
  | SaveBest nat

record train_state =
  results :: "real list"
  best_fitness :: real
  events :: "event list"

text \<open>
  The loop over the batches of one epoch, from the events so far. \<open>ni\<close> is the number
  of the batch since the start of training. A non-finite loss ends \<^verbatim>\<open>train\<close> at once
  (\<^verbatim>\<open>return results\<close>); \<^verbatim>\<open>ni % accumulate\<close> raises when \<^verbatim>\<open>accumulate\<close> is 0.
\<close>

datatype batches_result =
    NonFinite "event list"
  | BatchesRaised error "event list"
  | BatchesDone "event list"

fun train_batches :: "train_env \<Rightarrow> nat \<Rightarrow> nat list \<Rightarrow> event list \<Rightarrow> batches_result" where
  "train_batches env epoch [] evs = BatchesDone evs"
| "train_batches env epoch (idx # rest) evs =
     (let ni = idx + batches_num env * epoch in
      if \<not> isfinite (loss_at env epoch idx) then NonFinite evs
      else if accumulate env = 0 then BatchesRaised ZeroDivisionError (evs @ [Backward ni])
      else train_batches env epoch rest
             (evs @ [Backward ni]
                  @ (if int ni mod accumulate env = 0 then [OptimizerStep ni] else [])))"

text \<open>
  What \<^verbatim>\<open>train\<close> does: it returns \<^verbatim>\<open>results\<close> (at the end of the last epoch, or on a
  non-finite loss), or an exception escapes. After the batches of an epoch: the
  scheduler steps; the model is evaluated unless \<^verbatim>\<open>--notest\<close> is set and the epoch is
  not the final one, and \<^verbatim>\<open>results\<close> becomes what \<^verbatim>\<open>evaluate\<close> returns; the results file
  is written from \<^verbatim>\<open>context\<close>, which is \<^verbatim>\<open>None\<close> when the loader has no batch; the best
  fitness is updated; the checkpoint \<^verbatim>\<open>state\<close> is built only under \<^verbatim>\<open>save\<close> but is saved
  in any case, so without \<^verbatim>\<open>save\<close> the variable is unbound.
\<close>

datatype outcome =
    Returned "real list" "event list"
  | Raised error "event list"

fun train_epochs :: "train_env \<Rightarrow> nat list \<Rightarrow> train_state \<Rightarrow> outcome" where
  "train_epochs env [] st = Returned (results st) (events st)"
| "train_epochs env (epoch # rest) st =
     (case train_batches env epoch [0..<batches_num env] (events st) of
        NonFinite evs \<Rightarrow> Returned (results st) evs
      | BatchesRaised e evs \<Rightarrow> Raised e evs
      | BatchesDone evs \<Rightarrow>
          (let final_epoch = (epoch + 1 = epochs env);
               test = (\<not> notest env \<or> final_epoch);
               results' = (if test then evaluate env epoch else results st);
               evs1 = evs @ [SchedulerStep epoch] @ (if test then [Evaluate epoch] else []);
               fitness_i = fitness env results';
               best = (if fitness_i > best_fitness st then fitness_i else best_fitness st);
               save = (\<not> nosave env \<or> (final_epoch \<and> \<not> evolve env))
           in if batches_num env = 0 then Raised TypeError evs1
              else if \<not> save then Raised UnboundLocalError evs1
              else train_epochs env rest
                     \<lparr>results = results', best_fitness = best,
                      events = evs1 @ [SaveCheckpoint epoch]
                                    @ (if best = fitness_i then [SaveBest epoch] else [])\<rparr>))"

text \<open>
  \<^verbatim>\<open>train\<close> for a run without a checkpoint to resume: \<^verbatim>\<open>results\<close> starts as seven zeros
  and the best fitness as 0; the epochs are \<^verbatim>\<open>range(start_epoch, epochs)\<close>. Before the
  loop the learning-rate scheduler is created, which evaluates \<^verbatim>\<open>lr_lambda\<close> once: its
  division by \<^verbatim>\<open>epochs\<close> raises \<^verbatim>\<open>ZeroDivisionError\<close> when \<^verbatim>\<open>epochs\<close> is 0.
\<close>

definition train :: "train_env \<Rightarrow> outcome" where
  "train env =
     (if epochs env = 0 then Raised ZeroDivisionError []
      else train_epochs env [start_epoch env..<epochs env]
             \<lparr>results = [0, 0, 0, 0, 0, 0, 0], best_fitness = 0, events = []\<rparr>)"



section \<open>Properties of the detection head\<close>

lemma length_concat_upt:
  "(\<And>i. i < n \<Longrightarrow> length (f i) = m) \<Longrightarrow> length (concat (map f [0..<n])) = n * m"
  by (induction n) simp_all

lemma nth_concat_upt:
  "(\<And>i. i < n \<Longrightarrow> length (f i) = m) \<Longrightarrow> i < n \<Longrightarrow> j < m
     \<Longrightarrow> concat (map f [0..<n]) ! (i * m + j) = f i ! j"
proof (induction n)
  case 0
  then show ?case by simp
next
  case (Suc n)
  have len: "length (concat (map f [0..<n])) = n * m"
    using Suc.prems(1) by (simp add: length_concat_upt)
  show ?case
  proof (cases "i < n")
    case True
    have "i * m + j < n * m"
    proof -
      have "i * m + j < i * m + m" using Suc.prems(3) by simp
      also have "\<dots> = Suc i * m" by simp
      also have "\<dots> \<le> n * m" using True by (intro mult_le_mono1) simp
      finally show ?thesis .
    qed
    then show ?thesis
      using Suc.IH [OF _ True Suc.prems(3)] Suc.prems(1) len by (simp add: nth_append)
  next
    case False
    then have "i = n" using Suc.prems(2) by simp
    then show ?thesis using len by (simp add: nth_append)
  qed
qed

lemma length_build5: "length (build5 d0 d1 d2 d3 d4 f) = d0 * d1 * d2 * d3 * d4"
  unfolding build5_def
  by (simp add: length_concat_upt [where m = "d1 * d2 * d3 * d4"]
        length_concat_upt [where m = "d2 * d3 * d4"]
        length_concat_upt [where m = "d3 * d4"]
        length_concat_upt [where m = "d4"])

lemma nth_build5:
  assumes "i0 < d0" "i1 < d1" "i2 < d2" "i3 < d3" "i4 < d4"
  shows "build5 d0 d1 d2 d3 d4 f ! off5 d1 d2 d3 d4 i0 i1 i2 i3 i4 = f i0 i1 i2 i3 i4"
proof -
  let ?r3 = "\<lambda>i0 i1 i2 i3. map (\<lambda>i4. f i0 i1 i2 i3 i4) [0..<d4]"
  let ?r2 = "\<lambda>i0 i1 i2. concat (map (?r3 i0 i1 i2) [0..<d3])"
  let ?r1 = "\<lambda>i0 i1. concat (map (?r2 i0 i1) [0..<d2])"
  let ?r0 = "\<lambda>i0. concat (map (?r1 i0) [0..<d1])"
  have l3: "\<And>a b c d. length (?r3 a b c d) = d4" by simp
  have l2: "\<And>a b c. length (?r2 a b c) = d3 * d4"
    by (rule length_concat_upt) simp
  have l1: "\<And>a b. length (?r1 a b) = d2 * (d3 * d4)"
    by (rule length_concat_upt) (rule l2)
  have l0: "\<And>a. length (?r0 a) = d1 * (d2 * (d3 * d4))"
    by (rule length_concat_upt) (rule l1)
  have b3: "i3 * d4 + i4 < d3 * d4"
  proof -
    have "i3 * d4 + i4 < Suc i3 * d4" using assms(5) by simp
    also have "\<dots> \<le> d3 * d4" using assms(4) by (intro mult_le_mono1) simp
    finally show ?thesis .
  qed
  have b2: "i2 * (d3 * d4) + (i3 * d4 + i4) < d2 * (d3 * d4)"
  proof -
    have "i2 * (d3 * d4) + (i3 * d4 + i4) < Suc i2 * (d3 * d4)" using b3 by simp
    also have "\<dots> \<le> d2 * (d3 * d4)" using assms(3) by (intro mult_le_mono1) simp
    finally show ?thesis .
  qed
  have b1: "i1 * (d2 * (d3 * d4)) + (i2 * (d3 * d4) + (i3 * d4 + i4)) < d1 * (d2 * (d3 * d4))"
  proof -
    have "i1 * (d2 * (d3 * d4)) + (i2 * (d3 * d4) + (i3 * d4 + i4)) < Suc i1 * (d2 * (d3 * d4))"
      using b2 by simp
    also have "\<dots> \<le> d1 * (d2 * (d3 * d4))" using assms(2) by (intro mult_le_mono1) simp
    finally show ?thesis .
  qed
  have off: "off5 d1 d2 d3 d4 i0 i1 i2 i3 i4 =
      i0 * (d1 * (d2 * (d3 * d4))) + (i1 * (d2 * (d3 * d4)) + (i2 * (d3 * d4) + (i3 * d4 + i4)))"
    by (simp add: off5_def algebra_simps)
  have "build5 d0 d1 d2 d3 d4 f ! off5 d1 d2 d3 d4 i0 i1 i2 i3 i4
      = ?r0 i0 ! (i1 * (d2 * (d3 * d4)) + (i2 * (d3 * d4) + (i3 * d4 + i4)))"
    unfolding build5_def off by (rule nth_concat_upt [OF l0 assms(1) b1])
  also have "\<dots> = ?r1 i0 i1 ! (i2 * (d3 * d4) + (i3 * d4 + i4))"
    by (rule nth_concat_upt [OF l1 assms(2) b2])
  also have "\<dots> = ?r2 i0 i1 i2 ! (i3 * d4 + i4)"
    by (rule nth_concat_upt [OF l2 assms(3) b3])
  also have "\<dots> = ?r3 i0 i1 i2 i3 ! i4"
    by (rule nth_concat_upt [OF l3 assms(4) assms(5)])
  also have "\<dots> = f i0 i1 i2 i3 i4" using assms(5) by simp
  finally show ?thesis .
qed

lemma create_grids_fields [simp]:
  "nx (create_grids ps self img g) = fst g"
  "ny (create_grids ps self img g) = snd g"
  "na (create_grids ps self img g) = na self"
  "no (create_grids ps self img g) = no self"
  "nc (create_grids ps self img g) = nc self"
  "anchors (create_grids ps self img g) = anchors self"
  "training (create_grids ps self img g) = training self"
  by (simp_all add: create_grids_def Let_def)

lemma view_exact:
  assumes "prod_list ds = numel t"
  shows "view t (map int ds) = Inr \<lparr>shape = ds, vals = vals t\<rparr>"
proof -
  have a: "\<not> list_ex (\<lambda>d. d < - 1) (map int ds)" by (simp add: list_ex_iff)
  have b: "\<not> list_ex (\<lambda>d. d = - 1) (map int ds)" by (auto simp add: list_ex_iff)
  have c: "filter (\<lambda>d. d = - 1) (map int ds) = []" by (auto simp add: filter_empty_conv)
  have d: "map nat (map int ds) = ds" by (simp add: comp_def)
  show ?thesis unfolding view_def using a b c d assms by simp
qed

lemma off5_off4:
  "off5 d1 d2 d3 d4 b a c y x = off4 (d1 * d2) d3 d4 b (a * d2 + c) y x"
  by (simp add: off5_def off4_def algebra_simps)

lemma reshape_pred_training:
  assumes "training self" "0 \<le> no self"
    and "shape pred = [bs, na self * nat (no self), ny self, nx self]" "wf_tensor pred"
  shows "\<exists>p. reshape_pred ONNX_EXPORT self bs pred = Inr (Train p)
           \<and> shape p = [bs, na self, ny self, nx self, nat (no self)]
           \<and> (\<forall>b<bs. \<forall>a<na self. \<forall>y<ny self. \<forall>x<nx self. \<forall>c<nat (no self).
                at5 p b a y x c = at4 pred b (a * nat (no self) + c) y x)"
proof -
  let ?ds = "[bs, na self, nat (no self), ny self, nx self]"
  have n: "prod_list ?ds = numel pred" using assms(3) by (simp add: numel_def)
  have dims: "[int bs, int (na self), no self, int (ny self), int (nx self)] = map int ?ds"
    using assms(2) by simp
  have v: "view pred [int bs, int (na self), no self, int (ny self), int (nx self)]
             = Inr \<lparr>shape = ?ds, vals = vals pred\<rparr>"
    unfolding dims by (rule view_exact [OF n])
  let ?p = "\<lparr>shape = [bs, na self, ny self, nx self, nat (no self)],
             vals = build5 bs (na self) (ny self) (nx self) (nat (no self))
                      (\<lambda>b a y x c. vals pred ! off5 (na self) (nat (no self)) (ny self) (nx self) b a c y x)\<rparr>"
  have r: "reshape_pred ONNX_EXPORT self bs pred = Inr (Train ?p)"
    unfolding reshape_pred_def v using assms(1) by (simp add: ebind_def permute_01342_def)
  have el: "at5 ?p b a y x c = at4 pred b (a * nat (no self) + c) y x"
    if "b < bs" "a < na self" "y < ny self" "x < nx self" "c < nat (no self)" for b a y x c
  proof -
    have "at5 ?p b a y x c = vals pred ! off5 (na self) (nat (no self)) (ny self) (nx self) b a c y x"
      using that by (simp add: at5_def nth_build5)
    also have "\<dots> = at4 pred b (a * nat (no self) + c) y x"
      using assms(3) by (simp add: at4_def off5_off4)
    finally show ?thesis .
  qed
  show ?thesis using r el by auto
qed

text \<open>
  Claim C2. Outside export mode, a layer in training mode that receives a feature map
  of shape \<open>(bs, na * no, gy, gx)\<close> returns a tensor of shape \<open>(bs, na, gy, gx, no)\<close>
  whose element at \<open>(b, a, y, x, c)\<close> is the element at \<open>(b, a * no + c, y, x)\<close> of the
  input: a rearrangement, no value is transformed.
\<close>

theorem yolo_training_pure_reshape:
  assumes "\<not> ONNX_EXPORT" "training self" "0 \<le> no self"
    and "shape pred = [bs, na self * nat (no self), gy, gx]" "wf_tensor pred"
  shows "\<exists>self' p. YOLOLayer_forward ONNX_EXPORT pixel_stride self pred image_size = (self', Inr (Train p))
           \<and> shape p = [bs, na self, gy, gx, nat (no self)]
           \<and> (\<forall>b<bs. \<forall>a<na self. \<forall>y<gy. \<forall>x<gx. \<forall>c<nat (no self).
                at5 p b a y x c = at4 pred b (a * nat (no self) + c) y x)"
proof -
  let ?self' = "if (nx self, ny self) \<noteq> (gx, gy)
                then create_grids pixel_stride self image_size (gx, gy) else self"
  have f: "YOLOLayer_forward ONNX_EXPORT pixel_stride self pred image_size
             = (?self', reshape_pred ONNX_EXPORT ?self' bs pred)"
    using assms(1,4) by (simp add: YOLOLayer_forward_def Let_def)
  have s: "training ?self'" "0 \<le> no ?self'" "na ?self' = na self" "no ?self' = no self"
    "nx ?self' = gx" "ny ?self' = gy"
    using assms(2,3) by auto
  have sh: "shape pred = [bs, na ?self' * nat (no ?self'), ny ?self', nx ?self']"
    using assms(4) s by simp
  from reshape_pred_training [OF s(1) s(2) sh assms(5), of ONNX_EXPORT]
  show ?thesis unfolding f using s by (auto simp del: split_paired_Ex)
qed

theorem yolo_training_pure_reshape_witness:
  "\<exists>self' p. YOLOLayer_forward False (\<lambda>i n. 32) (ex_head\<lparr>training := True\<rparr>) ex_pred [32, 64]
              = (self', Inr (Train p))
     \<and> shape p = [1, 1, 1, 2, 6]
     \<and> at5 p 0 0 0 1 3 = 4 \<and> at5 p 0 0 0 0 5 = 7"
proof -
  have h: "\<not> False" "training (ex_head\<lparr>training := True\<rparr>)"
    "0 \<le> no (ex_head\<lparr>training := True\<rparr>)"
    "shape ex_pred = [1, na (ex_head\<lparr>training := True\<rparr>)
                          * nat (no (ex_head\<lparr>training := True\<rparr>)), 1, 2]"
    "wf_tensor ex_pred"
    by (simp_all add: ex_head_def ex_pred_def wf_tensor_def numel_def)
  from yolo_training_pure_reshape [OF h, of "\<lambda>i n. 32" "[32, 64]"]
  obtain self' p where
    f: "YOLOLayer_forward False (\<lambda>i n. 32) (ex_head\<lparr>training := True\<rparr>) ex_pred [32, 64]
          = (self', Inr (Train p))"
    and sh: "shape p = [1, 1, 1, 2, 6]"
    and el: "\<And>b a y x c. b < 1 \<Longrightarrow> a < 1 \<Longrightarrow> y < 1 \<Longrightarrow> x < 2 \<Longrightarrow> c < 6 \<Longrightarrow>
               at5 p b a y x c = at4 ex_pred b (a * 6 + c) y x"
    by (auto simp add: ex_head_def)
  have "at5 p 0 0 0 1 3 = 4" "at5 p 0 0 0 0 5 = 7"
    by (simp_all add: el at4_def off4_def ex_pred_def)
  with f sh show ?thesis by blast
qed

lemma shape_upd5 [simp]: "shape (upd5 f t) = shape t"
  by (simp add: upd5_def)

lemma at5_upd5:
  assumes "shape t = [d0, d1, d2, d3, d4]" "b < d0" "a < d1" "y < d2" "x < d3" "c < d4"
  shows "at5 (upd5 f t) b a y x c = f b a y x c (at5 t b a y x c)"
proof -
  have "at5 (upd5 f t) b a y x c
      = build5 d0 d1 d2 d3 d4 (\<lambda>b a y x c. f b a y x c (at5 t b a y x c)) ! off5 d1 d2 d3 d4 b a y x c"
    using assms(1) by (simp add: at5_def upd5_def)
  also have "\<dots> = f b a y x c (at5 t b a y x c)"
    using assms(2-6) by (rule nth_build5)
  finally show ?thesis .
qed

lemma length_upd5:
  "shape t = [d0, d1, d2, d3, d4] \<Longrightarrow> length (vals (upd5 f t)) = d0 * d1 * d2 * d3 * d4"
  by (simp add: upd5_def length_build5)

lemma grid_xy_create_grids:
  assumes "geom (create_grids ps self img (gx, gy)) = Some g" "y < gy" "x < gx" "c < 2"
  shows "at5 (grid_xy g) 0 0 y x c = real (if c = 0 then x else y)"
proof -
  let ?row = "\<lambda>y. concat (map (\<lambda>x. [real x, real y]) [0..<gx])"
  have g: "grid_xy g = \<lparr>shape = [1, 1, gy, gx, 2], vals = concat (map ?row [0..<gy])\<rparr>"
    using assms(1) by (auto simp add: create_grids_def Let_def)
  have lrow: "\<And>y. length (?row y) = gx * 2"
    by (rule length_concat_upt) simp
  have b: "x * 2 + c < gx * 2" using assms(3,4) by simp
  have "at5 (grid_xy g) 0 0 y x c = concat (map ?row [0..<gy]) ! (y * (gx * 2) + (x * 2 + c))"
    by (simp add: g at5_def off5_def algebra_simps)
  also have "\<dots> = ?row y ! (x * 2 + c)"
    by (rule nth_concat_upt [OF lrow assms(2) b])
  also have "\<dots> = [real x, real y] ! c"
    by (rule nth_concat_upt [OF _ assms(3) assms(4)]) simp
  also have "\<dots> = real (if c = 0 then x else y)"
    using assms(4) by (cases c) simp_all
  finally show ?thesis .
qed

lemma create_grids_shapes:
  assumes "geom (create_grids ps self img (gx, gy)) = Some g"
  shows "shape (grid_xy g) = [1, 1, gy, gx, 2]"
    and "shape (anchor_wh g) = [1, length (anchors self), 1, 1, 2]"
    and "stride g = ps img (gx, gy)"
  using assms by (auto simp add: create_grids_def Let_def)

lemma yolo_inv_create_grids:
  "na self = length (anchors self) \<Longrightarrow> yolo_inv (create_grids ps self img g)"
  by (simp add: yolo_inv_def create_grids_def Let_def)

lemma view_infer_mid:
  assumes "numel t = d0 * m * d2" "0 < d0" "0 < d2"
  shows "view t [int d0, - 1, int d2] = Inr \<lparr>shape = [d0, m, d2], vals = vals t\<rparr>"
proof -
  have "d0 * m * d2 div (d0 * d2) = m"
    using assms(2,3) by (simp add: mult.commute mult.left_commute)
  then show ?thesis
    using assms by (simp add: view_def Let_def)
qed

lemma at3_view5:
  assumes "b < d0" "a < d1" "y < d2" "x < d3" "c < d4"
  shows "at3 \<lparr>shape = [d0, d1 * d2 * d3, d4], vals = vs\<rparr> b ((a * d2 + y) * d3 + x) c
           = vs ! off5 d1 d2 d3 d4 b a y x c"
  by (simp add: at3_def off5_def algebra_simps)

lemma infer_out_decoded:
  assumes "geom self = Some g" "shape p = [bs, d1, gy, gx, d4]"
    and "shape (grid_xy g) = [1, 1, gy, gx, 2]" "shape (anchor_wh g) = [1, d1, 1, 1, 2]"
    and "4 \<le> d4" "no self = int d4" "0 < bs"
  shows "\<exists>io. infer_out self bs p = Inr (Infer io p)
           \<and> shape io = [bs, d1 * gy * gx, d4]
           \<and> (\<forall>b<bs. \<forall>a<d1. \<forall>y<gy. \<forall>x<gx. \<forall>c<d4.
                 at3 io b ((a * gy + y) * gx + x) c =
                   (if c < 2 then (sigmoid (at5 p b a y x c) + at5 (grid_xy g) 0 0 y x c) * stride g
                    else if c < 4
                      then exp (at5 p b a y x c) * at5 (anchor_wh g) 0 a 0 0 (c - 2) * stride g
                    else sigmoid (at5 p b a y x c)))"
proof -
  let ?d = "sigmoid_scores (scale_box g (decode_wh g (decode_xy g p)))"
  have sh: "shape ?d = [bs, d1, gy, gx, d4]"
    using assms(2) by (simp add: sigmoid_scores_def scale_box_def decode_wh_def decode_xy_def)
  have len: "length (vals ?d) = bs * d1 * gy * gx * d4"
    unfolding sigmoid_scores_def
    by (rule length_upd5) (simp add: assms(2) scale_box_def decode_wh_def decode_xy_def)
  have n: "numel ?d = bs * (d1 * gy * gx) * d4"
    by (simp add: numel_def sh)
  have d4: "0 < d4" using assms(5) by simp
  let ?io = "\<lparr>shape = [bs, d1 * gy * gx, d4], vals = vals ?d\<rparr>"
  have v: "view ?d [int bs, - 1, no self] = Inr ?io"
    unfolding assms(6) by (rule view_infer_mid [OF n assms(7) d4])
  have r: "infer_out self bs p = Inr (Infer ?io p)"
    unfolding infer_out_def using assms(1-5) v by (simp add: ebind_def)
  have el: "at3 ?io b ((a * gy + y) * gx + x) c =
      (if c < 2 then (sigmoid (at5 p b a y x c) + at5 (grid_xy g) 0 0 y x c) * stride g
       else if c < 4 then exp (at5 p b a y x c) * at5 (anchor_wh g) 0 a 0 0 (c - 2) * stride g
       else sigmoid (at5 p b a y x c))"
    if i: "b < bs" "a < d1" "y < gy" "x < gx" "c < d4" for b a y x c
  proof -
    have s1: "shape (decode_xy g p) = [bs, d1, gy, gx, d4]"
      using assms(2) by (simp add: decode_xy_def)
    have s2: "shape (decode_wh g (decode_xy g p)) = [bs, d1, gy, gx, d4]"
      using s1 by (simp add: decode_wh_def)
    have s3: "shape (scale_box g (decode_wh g (decode_xy g p))) = [bs, d1, gy, gx, d4]"
      using s2 by (simp add: scale_box_def)
    have "at3 ?io b ((a * gy + y) * gx + x) c = at5 ?d b a y x c"
      using i by (simp add: at3_view5 at5_def sh)
    also have "\<dots> =
      (if c < 2 then (sigmoid (at5 p b a y x c) + at5 (grid_xy g) 0 0 y x c) * stride g
       else if c < 4 then exp (at5 p b a y x c) * at5 (anchor_wh g) 0 a 0 0 (c - 2) * stride g
       else sigmoid (at5 p b a y x c))"
      unfolding sigmoid_scores_def at5_upd5 [OF s3 i]
      unfolding scale_box_def at5_upd5 [OF s2 i]
      unfolding decode_wh_def at5_upd5 [OF s1 i]
      unfolding decode_xy_def at5_upd5 [OF assms(2) i]
      by simp
    finally show ?thesis .
  qed
  show ?thesis using r el by (intro exI [of _ ?io]) simp
qed

lemma sigmoid_zero: "sigmoid 0 = 1 / 2"
  by (simp add: sigmoid_def)

lemma cached_geometry:
  assumes "yolo_inv self" "0 < gx"
  shows "\<exists>g ps' img'.
           geom (if (nx self, ny self) \<noteq> (gx, gy)
                 then create_grids ps self img (gx, gy) else self) = Some g
           \<and> geom (create_grids ps' self img' (gx, gy)) = Some g"
proof (cases "(nx self, ny self) \<noteq> (gx, gy)")
  case True
  obtain g where "geom (create_grids ps self img (gx, gy)) = Some g"
    by (simp add: create_grids_def Let_def)
  then show ?thesis using True by auto
next
  case False
  then have eq: "nx self = gx" "ny self = gy" by simp_all
  from assms(1,2) eq obtain g where g: "geom self = Some g"
    and c: "geom (create_grids (\<lambda>i n. stride g) self [] (gx, gy)) = Some g"
    by (auto simp add: yolo_inv_def split: option.splits)
  show ?thesis using False g c by auto
qed

text \<open>
  Claim C1. Outside export mode, a layer in inference mode (with at least four outputs
  per anchor, a non-empty batch and a non-empty grid) returns the decoded tensor \<open>io\<close>
  and the reshaped raw tensor \<open>p\<close>. For every cell \<open>(y, x)\<close>, anchor \<open>a\<close> and channel
  \<open>c\<close>: channels 0-1 of \<open>io\<close> are the sigmoid of the raw value plus the grid-origin
  offset, times the stride; channels 2-3 are the exponential of the raw value times
  the anchor size, times the stride; channels 4 and onward are the sigmoid of the raw
  value. The grid-origin offset of cell \<open>(y, x)\<close> is \<open>x\<close> for channel 0 and \<open>y\<close> for
  channel 1, so where a raw offset is exactly 0 and the stride is positive the decoded
  coordinate is the cell origin plus half a stride, inside
  \<open>[origin, origin + stride)\<close>.
\<close>

theorem yolo_inference_decode:
  assumes "\<not> ONNX_EXPORT" "\<not> training self" "yolo_inv self" "4 \<le> no self"
    and "0 < bs" "0 < gy" "0 < gx"
    and "shape pred = [bs, na self * nat (no self), gy, gx]" "wf_tensor pred"
  shows "\<exists>self' g io p.
      YOLOLayer_forward ONNX_EXPORT pixel_stride self pred image_size = (self', Inr (Infer io p))
    \<and> geom self' = Some g
    \<and> ((nx self, ny self) \<noteq> (gx, gy) \<longrightarrow> stride g = pixel_stride image_size (gx, gy))
    \<and> shape io = [bs, na self * gy * gx, nat (no self)]
    \<and> (\<forall>b<bs. \<forall>a<na self. \<forall>y<gy. \<forall>x<gx. \<forall>c<nat (no self).
          at5 p b a y x c = at4 pred b (a * nat (no self) + c) y x
        \<and> at3 io b ((a * gy + y) * gx + x) c =
            (if c < 2 then (sigmoid (at5 p b a y x c) + at5 (grid_xy g) 0 0 y x c) * stride g
             else if c < 4
               then exp (at5 p b a y x c) * at5 (anchor_wh g) 0 a 0 0 (c - 2) * stride g
             else sigmoid (at5 p b a y x c))
        \<and> (c < 2 \<longrightarrow> at5 (grid_xy g) 0 0 y x c = real (if c = 0 then x else y))
        \<and> (c < 2 \<and> at5 p b a y x c = 0 \<and> 0 < stride g \<longrightarrow>
             at3 io b ((a * gy + y) * gx + x) c
               = at5 (grid_xy g) 0 0 y x c * stride g + stride g / 2
           \<and> at5 (grid_xy g) 0 0 y x c * stride g \<le> at3 io b ((a * gy + y) * gx + x) c
           \<and> at3 io b ((a * gy + y) * gx + x) c
               < at5 (grid_xy g) 0 0 y x c * stride g + stride g))"
proof -
  let ?self' = "if (nx self, ny self) \<noteq> (gx, gy)
                then create_grids pixel_stride self image_size (gx, gy) else self"
  let ?n = "nat (no self)"
  have f: "YOLOLayer_forward ONNX_EXPORT pixel_stride self pred image_size
             = (?self', reshape_pred ONNX_EXPORT ?self' bs pred)"
    using assms(1,8) by (simp add: YOLOLayer_forward_def Let_def)
  have s: "\<not> training ?self'" "na ?self' = na self" "no ?self' = no self"
    "nx ?self' = gx" "ny ?self' = gy"
    using assms(2) by auto
  from cached_geometry [OF assms(3,7), of gy pixel_stride image_size]
  obtain g ps' img' where g: "geom ?self' = Some g"
    and c: "geom (create_grids ps' self img' (gx, gy)) = Some g"
    by blast
  have st: "stride g = pixel_stride image_size (gx, gy)" if "(nx self, ny self) \<noteq> (gx, gy)"
    using g that by (auto simp add: create_grids_def Let_def)
  have na: "na self = length (anchors self)" using assms(3) by (simp add: yolo_inv_def)
  note shp = create_grids_shapes(1,2) [OF c]
  let ?ds = "[bs, na self, ?n, gy, gx]"
  have n: "prod_list ?ds = numel pred" using assms(8) by (simp add: numel_def)
  have dims: "[int bs, int (na ?self'), no ?self', int (ny ?self'), int (nx ?self')] = map int ?ds"
    using assms(4) s by simp
  have v: "view pred [int bs, int (na ?self'), no ?self', int (ny ?self'), int (nx ?self')]
             = Inr \<lparr>shape = ?ds, vals = vals pred\<rparr>"
    unfolding dims by (rule view_exact [OF n])
  let ?p = "\<lparr>shape = [bs, na self, gy, gx, ?n],
             vals = build5 bs (na self) gy gx ?n
                      (\<lambda>b a y x c. vals pred ! off5 (na self) ?n gy gx b a c y x)\<rparr>"
  have r: "reshape_pred ONNX_EXPORT ?self' bs pred = infer_out ?self' bs ?p"
    unfolding reshape_pred_def v using s(1) assms(1) by (simp add: ebind_def permute_01342_def)
  have pel: "at5 ?p b a y x c = at4 pred b (a * ?n + c) y x"
    if "b < bs" "a < na self" "y < gy" "x < gx" "c < ?n" for b a y x c
  proof -
    have "at5 ?p b a y x c = vals pred ! off5 (na self) ?n gy gx b a c y x"
      using that by (simp add: at5_def nth_build5)
    also have "\<dots> = at4 pred b (a * ?n + c) y x"
      using assms(8) by (simp add: at4_def off5_off4)
    finally show ?thesis .
  qed
  have n4: "4 \<le> ?n" "no ?self' = int ?n" using assms(4) s by simp_all
  have shp': "shape (anchor_wh g) = [1, na self, 1, 1, 2]" using shp(2) na by simp
  from infer_out_decoded [OF g _ shp(1) shp' n4 assms(5), of ?p]
  obtain io where io: "infer_out ?self' bs ?p = Inr (Infer io ?p)"
    and ios: "shape io = [bs, na self * gy * gx, ?n]"
    and ioel: "\<And>b a y x c. b < bs \<Longrightarrow> a < na self \<Longrightarrow> y < gy \<Longrightarrow> x < gx \<Longrightarrow> c < ?n \<Longrightarrow>
       at3 io b ((a * gy + y) * gx + x) c =
         (if c < 2 then (sigmoid (at5 ?p b a y x c) + at5 (grid_xy g) 0 0 y x c) * stride g
          else if c < 4
            then exp (at5 ?p b a y x c) * at5 (anchor_wh g) 0 a 0 0 (c - 2) * stride g
          else sigmoid (at5 ?p b a y x c))"
    by auto
  have orig: "at5 (grid_xy g) 0 0 y x c = real (if c = 0 then x else y)"
    if "y < gy" "x < gx" "c < 2" for y x c
    using grid_xy_create_grids [OF c that] .
  have centre: "at3 io b ((a * gy + y) * gx + x) c
               = at5 (grid_xy g) 0 0 y x c * stride g + stride g / 2
           \<and> at5 (grid_xy g) 0 0 y x c * stride g \<le> at3 io b ((a * gy + y) * gx + x) c
           \<and> at3 io b ((a * gy + y) * gx + x) c
               < at5 (grid_xy g) 0 0 y x c * stride g + stride g"
    if "b < bs" "a < na self" "y < gy" "x < gx" "c < ?n" "c < 2" "at5 ?p b a y x c = 0"
      "0 < stride g" for b a y x c
  proof -
    have "at3 io b ((a * gy + y) * gx + x) c = (1 / 2 + at5 (grid_xy g) 0 0 y x c) * stride g"
      using ioel [OF that(1-5)] that(6,7) by (simp add: sigmoid_zero)
    then have e: "at3 io b ((a * gy + y) * gx + x) c
        = at5 (grid_xy g) 0 0 y x c * stride g + stride g / 2"
      by (simp add: algebra_simps)
    show ?thesis using e that(8) by simp
  qed
  have "YOLOLayer_forward ONNX_EXPORT pixel_stride self pred image_size
          = (?self', Inr (Infer io ?p))"
    using f r io by simp
  then show ?thesis
    using g st ios pel ioel orig centre
    by (intro exI [of _ ?self'] exI [of _ g] exI [of _ io] exI [of _ ?p]) simp
qed

theorem yolo_inference_decode_witness:
  "\<exists>self' g io p.
      YOLOLayer_forward False (\<lambda>i n. 32) ex_head ex_pred [32, 64] = (self', Inr (Infer io p))
    \<and> geom self' = Some g \<and> stride g = 32 \<and> shape io = [1, 2, 6]
    \<and> at3 io 0 1 0 = 48 \<and> at3 io 0 1 1 = 16"
proof -
  have h: "\<not> False" "\<not> training ex_head" "yolo_inv ex_head" "4 \<le> no ex_head"
    "0 < (1::nat)" "0 < (1::nat)" "0 < (2::nat)"
    "shape ex_pred = [1, na ex_head * nat (no ex_head), 1, 2]" "wf_tensor ex_pred"
    by (simp_all add: ex_head_def ex_pred_def yolo_inv_def wf_tensor_def numel_def)
  note t = yolo_inference_decode [OF h, of "\<lambda>i n. 32" "[32, 64]"]
  from t obtain self' g io p where big:
    "YOLOLayer_forward False (\<lambda>i n. 32) ex_head ex_pred [32, 64] = (self', Inr (Infer io p))
    \<and> geom self' = Some g
    \<and> ((nx ex_head, ny ex_head) \<noteq> (2, 1) \<longrightarrow> stride g = 32)
    \<and> shape io = [1, na ex_head * 1 * 2, nat (no ex_head)]
    \<and> (\<forall>b<1. \<forall>a<na ex_head. \<forall>y<1. \<forall>x<2. \<forall>c<nat (no ex_head).
          at5 p b a y x c = at4 ex_pred b (a * nat (no ex_head) + c) y x
        \<and> at3 io b ((a * 1 + y) * 2 + x) c =
            (if c < 2 then (sigmoid (at5 p b a y x c) + at5 (grid_xy g) 0 0 y x c) * stride g
             else if c < 4
               then exp (at5 p b a y x c) * at5 (anchor_wh g) 0 a 0 0 (c - 2) * stride g
             else sigmoid (at5 p b a y x c))
        \<and> (c < 2 \<longrightarrow> at5 (grid_xy g) 0 0 y x c = real (if c = 0 then x else y))
        \<and> (c < 2 \<and> at5 p b a y x c = 0 \<and> 0 < stride g \<longrightarrow>
             at3 io b ((a * 1 + y) * 2 + x) c
               = at5 (grid_xy g) 0 0 y x c * stride g + stride g / 2
           \<and> at5 (grid_xy g) 0 0 y x c * stride g \<le> at3 io b ((a * 1 + y) * 2 + x) c
           \<and> at3 io b ((a * 1 + y) * 2 + x) c
               < at5 (grid_xy g) 0 0 y x c * stride g + stride g))"
    by (elim exE) (rule that)
  note f = big [THEN conjunct1]
  note g = big [THEN conjunct2, THEN conjunct1]
  note st0 = big [THEN conjunct2, THEN conjunct2, THEN conjunct1]
  note sh0 = big [THEN conjunct2, THEN conjunct2, THEN conjunct2, THEN conjunct1]
  note el = big [THEN conjunct2, THEN conjunct2, THEN conjunct2, THEN conjunct2, rule_format]
  have st: "stride g = 32" using st0 by (simp add: ex_head_def)
  have sh: "shape io = [1, 2, 6]" using sh0 by (simp add: ex_head_def)
  have i: "(0::nat) < 1" "0 < na ex_head" "(1::nat) < 2" "0 < nat (no ex_head)"
    "1 < nat (no ex_head)"
    by (simp_all add: ex_head_def)
  have z: "at4 ex_pred 0 (0 * nat (no ex_head) + 0) 0 1 = 0"
    "at4 ex_pred 0 (0 * nat (no ex_head) + 1) 0 1 = 0"
    by (simp_all add: at4_def off4_def ex_pred_def ex_head_def)
  note e0 = el [OF i(1) i(2) i(1) i(3) i(4)]
  note e1 = el [OF i(1) i(2) i(1) i(3) i(5)]
  have p0: "at5 p 0 0 0 1 0 = 0" using e0 [THEN conjunct1] z(1) by simp
  have p1: "at5 p 0 0 0 1 1 = 0" using e1 [THEN conjunct1] z(2) by simp
  have g0: "at5 (grid_xy g) 0 0 0 1 0 = 1"
    using e0 [THEN conjunct2, THEN conjunct2, THEN conjunct1] by simp
  have g1: "at5 (grid_xy g) 0 0 0 1 1 = 0"
    using e1 [THEN conjunct2, THEN conjunct2, THEN conjunct1] by simp
  have a0: "at3 io 0 1 0 = 48"
    using e0 [THEN conjunct2, THEN conjunct2, THEN conjunct2] p0 g0 st by simp
  have a1: "at3 io 0 1 1 = 16"
    using e1 [THEN conjunct2, THEN conjunct2, THEN conjunct2] p1 g1 st by simp
  show ?thesis
    by (rule exI [of _ self'], rule exI [of _ g], rule exI [of _ io], rule exI [of _ p])
       (intro conjI f g st sh a0 a1)
qed

lemma forward_state:
  assumes "\<not> ONNX_EXPORT" "shape p = [b, c, gy, gx]"
  shows "fst (YOLOLayer_forward ONNX_EXPORT ps s p img)
           = (if (nx s, ny s) \<noteq> (gx, gy) then create_grids ps s img (gx, gy) else s)"
  using assms by (simp add: YOLOLayer_forward_def Let_def)

text \<open>
  Claim C7. Outside export mode: after a call with a feature map of grid \<open>(gy, gx)\<close> the
  layer caches that grid size; a second call with the same grid leaves the layer, and
  so its cached grid tensors, exactly as they were (whatever image size it is given);
  a call with a different grid replaces the cache by what \<^verbatim>\<open>create_grids\<close> builds for
  the new grid.
\<close>

theorem yolo_grid_cache:
  assumes "\<not> ONNX_EXPORT"
    and "shape p1 = [b1, c1, gy, gx]" "shape p2 = [b2, c2, gy, gx]"
    and "shape p3 = [b3, c3, gy', gx']" "(gx', gy') \<noteq> (gx, gy)"
  shows "nx (fst (YOLOLayer_forward ONNX_EXPORT ps self p1 img1)) = gx
       \<and> ny (fst (YOLOLayer_forward ONNX_EXPORT ps self p1 img1)) = gy
       \<and> fst (YOLOLayer_forward ONNX_EXPORT ps
               (fst (YOLOLayer_forward ONNX_EXPORT ps self p1 img1)) p2 img2)
           = fst (YOLOLayer_forward ONNX_EXPORT ps self p1 img1)
       \<and> fst (YOLOLayer_forward ONNX_EXPORT ps
               (fst (YOLOLayer_forward ONNX_EXPORT ps self p1 img1)) p3 img3)
           = create_grids ps (fst (YOLOLayer_forward ONNX_EXPORT ps self p1 img1)) img3 (gx', gy')"
proof -
  define s1 where "s1 = fst (YOLOLayer_forward ONNX_EXPORT ps self p1 img1)"
  have g1: "nx s1 = gx" "ny s1 = gy"
    unfolding s1_def forward_state [OF assms(1,2)] by simp_all
  have same: "fst (YOLOLayer_forward ONNX_EXPORT ps s1 p2 img2) = s1"
    unfolding forward_state [OF assms(1,3)] using g1 by simp
  have diff: "fst (YOLOLayer_forward ONNX_EXPORT ps s1 p3 img3)
                = create_grids ps s1 img3 (gx', gy')"
    unfolding forward_state [OF assms(1,4)] using g1 assms(5) by auto
  show ?thesis using g1 same diff unfolding s1_def by simp
qed

theorem yolo_grid_cache_witness:
  "fst (YOLOLayer_forward False (\<lambda>i n. 32)
         (fst (YOLOLayer_forward False (\<lambda>i n. 32) ex_head ex_pred [32, 64])) ex_pred [96, 96])
     = fst (YOLOLayer_forward False (\<lambda>i n. 32) ex_head ex_pred [32, 64])
   \<and> nx (fst (YOLOLayer_forward False (\<lambda>i n. 32)
         (fst (YOLOLayer_forward False (\<lambda>i n. 32) ex_head ex_pred [32, 64])) ex_pred2 [64, 64])) = 2
   \<and> ny (fst (YOLOLayer_forward False (\<lambda>i n. 32)
         (fst (YOLOLayer_forward False (\<lambda>i n. 32) ex_head ex_pred [32, 64])) ex_pred2 [64, 64])) = 2"
proof -
  have h: "\<not> False" "shape ex_pred = [1, 6, 1, 2]" "shape ex_pred = [1, 6, 1, 2]"
    "shape ex_pred2 = [1, 6, 2, 2]" "(2::nat, 2::nat) \<noteq> (2, 1)"
    by (simp_all add: ex_pred_def ex_pred2_def)
  from yolo_grid_cache [OF h, of "\<lambda>i n. 32" ex_head "[32, 64]" "[96, 96]" "[64, 64]"]
  show ?thesis by simp
qed

section \<open>Properties of the graph builder\<close>

lemma ebind_Inr: "ebind m f = Inr r \<longleftrightarrow> (\<exists>v. m = Inr v \<and> f v = Inr r)"
  by (cases m) (simp_all add: ebind_def)

lemma ebind_Inr_simp [simp]: "ebind (Inr v) f = f v"
  by (simp add: ebind_def)

lemma ebind_Inl_simp [simp]: "ebind (Inl e) f = Inl e"
  by (simp add: ebind_def)

lemma py_set_length: "py_set xs i v = Inr ys \<Longrightarrow> length ys = length xs"
  by (auto simp add: py_set_def split: if_splits)

lemma smart_bias_init_length:
  "smart_bias_init ml y hf ls yi = Inr ml' \<Longrightarrow> length ml' = length ml"
  by (auto simp add: smart_bias_init_def ebind_Inr py_set_length split: if_splits)

lemma build_convolutional_frame:
  "build_convolutional bias0 i d st = Inr (m, st') \<Longrightarrow>
     loc_module_list st' = loc_module_list st \<and> loc_output_filters st' = loc_output_filters st"
  unfolding build_convolutional_def ebind_Inr by (elim exE conjE) auto

lemma build_yolo_frame:
  "build_yolo ox ps img d st = Inr (m, st') \<Longrightarrow>
     length (loc_module_list st') = length (loc_module_list st)
       \<and> loc_output_filters st' = loc_output_filters st"
  unfolding build_yolo_def Let_def ebind_Inr
  by (elim exE conjE) (auto simp add: smart_bias_init_length split: sum.splits)

lemma build_branch_frame:
  assumes "build_branch ox ps bias0 img i d st = Inr (m, st')"
  shows "length (loc_module_list st') = length (loc_module_list st)
       \<and> loc_output_filters st' = loc_output_filters st"
proof -
  from assms obtain t where t: "getitem d ''type'' = Inr t"
    and b: "(if is_str t ''convolutional'' then build_convolutional bias0 i d st
       else if is_str t ''maxpool'' then build_maxpool d st
       else if is_str t ''avgpool'' then build_avgpool d st
       else if is_str t ''semodule'' then build_semodule d st
       else if is_str t ''shuffle'' then build_shuffle d st
       else if is_str t ''dense'' then build_dense bias0 i d st
       else if is_str t ''upsample'' then build_upsample ox img d st
       else if is_str t ''route'' then build_route i d st
       else if is_str t ''shortcut'' then build_shortcut i d st
       else if is_str t ''yolo'' then build_yolo ox ps img d st
       else Inr (Sequential [], st)) = Inr (m, st')"
    unfolding build_branch_def ebind_Inr by blast
  show ?thesis
    using b build_convolutional_frame [of bias0 i d st m st'] build_yolo_frame [of ox ps img d st m st']
    by (auto simp add: build_maxpool_def build_avgpool_def build_semodule_def build_shuffle_def
          build_dense_def build_upsample_def build_route_def build_shortcut_def ebind_Inr
          split: if_splits)
qed

lemma build_layer_lengths:
  assumes "build_layer ox ps bias0 img i d st = Inr st'"
  shows "length (loc_module_list st') = Suc (length (loc_module_list st))
       \<and> length (loc_output_filters st') = Suc (length (loc_output_filters st))"
proof -
  from assms obtain r where r: "build_branch ox ps bias0 img i d st = Inr r"
    and s: "(case loc_filters (snd r) of None \<Rightarrow> Inl UnboundLocalError
       | Some filters \<Rightarrow>
           Inr ((snd r)\<lparr>loc_module_list := loc_module_list (snd r) @ [fst r],
                        loc_output_filters := loc_output_filters (snd r) @ [filters]\<rparr>)) = Inr st'"
    unfolding build_layer_def ebind_Inr by blast
  from build_branch_frame [of ox ps bias0 img i d st "fst r" "snd r"] r
  have f: "length (loc_module_list (snd r)) = length (loc_module_list st)"
    "loc_output_filters (snd r) = loc_output_filters st" by simp_all
  show ?thesis using s f by (auto split: option.splits)
qed

lemma build_loop_lengths:
  "build_loop ox ps bias0 img i ds st = Inr st' \<Longrightarrow>
     length (loc_module_list st') = length (loc_module_list st) + length ds
       \<and> length (loc_output_filters st') = length (loc_output_filters st) + length ds"
proof (induction ds arbitrary: i st)
  case Nil
  then show ?case by simp
next
  case (Cons d ds)
  from Cons.prems obtain s1 where a: "build_layer ox ps bias0 img i d st = Inr s1"
    and b: "build_loop ox ps bias0 img (Suc i) ds s1 = Inr st'"
    by (auto simp add: ebind_Inr)
  from build_layer_lengths [OF a] Cons.IH [OF b] show ?case by simp
qed

lemma mark_routs_length: "mark_routs rs rb = Inr rb' \<Longrightarrow> length rb' = length rb"
proof (induction rs arbitrary: rb)
  case Nil
  then show ?case by simp
next
  case (Cons r rs)
  from Cons.prems obtain rb1 where a: "py_set rb r True = Inr rb1"
    and b: "mark_routs rs rb1 = Inr rb'"
    by (auto simp add: ebind_Inr)
  from py_set_length [OF a] Cons.IH [OF b] show ?case by simp
qed

lemma create_modules_defines: "fst (create_modules ox ps bias0 defs img) = tl defs"
  by (cases defs) (simp_all add: create_modules_def)

lemma create_modules_lengths:
  assumes "snd (create_modules ox ps bias0 defs img) = Inr (ml, rb)"
  shows "length ml = length (tl defs) \<and> length rb = length ml"
proof (cases defs)
  case Nil
  with assms show ?thesis by (simp add: create_modules_def)
next
  case (Cons h ds)
  from assms Cons obtain c ch st where
    l: "build_loop ox ps bias0 img 0 ds (initial_locals ch) = Inr st"
    and m: "(if ds = [] then Inl UnboundLocalError
             else ebind (mark_routs (loc_routs st) (replicate (length ds) False))
                    (\<lambda>routs_binary. Inr (loc_module_list st, routs_binary))) = Inr (ml, rb)"
    by (auto simp add: create_modules_def ebind_Inr)
  from m obtain rb' where r: "mark_routs (loc_routs st) (replicate (length ds) False) = Inr rb'"
    and e: "ml = loc_module_list st" "rb = rb'"
    by (auto simp add: ebind_Inr split: if_splits)
  from build_loop_lengths [OF l] have "length (loc_module_list st) = length ds"
    by (simp add: initial_locals_def)
  with mark_routs_length [OF r] e Cons show ?thesis by simp
qed

lemmas builder_eval =
  create_modules_def initial_locals_def build_layer_def build_branch_def
  build_convolutional_def new_Conv2d_def build_maxpool_def build_route_def route_filters_def
  getitem_def has_key_def as_int_def as_list_def py_int_def is_str_def truthy_def
  py_nth_def py_set_def activation_of_def resolve_ref_def
  ex_hyper_def ex_conv_def ex_route_def ex_maxpool_def ex_unknown_def

text \<open>
  Claim C3 (the postcondition on the lengths). Whenever \<^verbatim>\<open>create_modules\<close> returns, the
  module list has one module per layer specification and the routed mask has the
  length of the module list (lemma \<open>create_modules_lengths\<close>). But the builder does not
  return for every valid sequence: \<^verbatim>\<open>output_filters.append(filters)\<close> reads the local
  variable \<^verbatim>\<open>filters\<close>, which only the \<^verbatim>\<open>convolutional\<close>, \<^verbatim>\<open>route\<close> and \<^verbatim>\<open>shortcut\<close>
  branches assign. For the hyperparameters followed by one \<^verbatim>\<open>maxpool\<close> layer (all its
  fields present) the call raises \<^verbatim>\<open>UnboundLocalError\<close>.
\<close>

theorem create_modules_maxpool_first:
  "snd (create_modules ONNX_EXPORT pixel_stride bias0 [ex_hyper, ex_maxpool] image_size)
     = Inl UnboundLocalError"
  by (simp add: builder_eval)

text \<open>
  Claim C8. An unrecognised layer type keeps the empty \<^verbatim>\<open>nn.Sequential()\<close> and the loop
  goes on to append to both lists; after a layer that has assigned \<^verbatim>\<open>filters\<close> this
  works (lemma \<open>create_modules_unknown_after_conv\<close>). When the unrecognised
  specification is the first layer, \<^verbatim>\<open>filters\<close> is unbound and the build aborts with
  \<^verbatim>\<open>UnboundLocalError\<close>.
\<close>

theorem create_modules_unknown_first:
  "snd (create_modules ONNX_EXPORT pixel_stride bias0 [ex_hyper, ex_unknown] image_size)
     = Inl UnboundLocalError"
  by (simp add: builder_eval)

lemma create_modules_unknown_after_conv:
  "snd (create_modules ONNX_EXPORT pixel_stride bias0 [ex_hyper, ex_conv 1 16, ex_unknown] image_size)
     = Inr ([Sequential [(''Conv2d'', Conv2d 3 16 3 (1, 1) 1 1 None),
                         (''BatchNorm2d'', BatchNorm2d 16), (''activation'', LeakyReLU)],
             Sequential []],
            [False, False])"
  by (simp add: builder_eval)

text \<open>
  Claim C4. For a reference that is not 0 the channel count is looked up at the
  position of the referenced layer in \<open>output_filters\<close>, one past its index because of
  the input-channel entry at position 0 (lemma \<open>route_lookup_nonzero\<close>); a single
  back-reference \<open>-1\<close> gives the count of the preceding layer (lemma
  \<open>route_filters_back1\<close>). The absolute reference 0 is looked up at position 0 itself:
  a route to layer 0 declares the number of input channels of the network, not the
  output channels of layer 0, although the same reference marks layer 0 as routed.
  Here layer 0 has 16 output channels, the network has 3 input channels, and the
  route at index 2 declares 3.
\<close>

theorem route_to_layer_zero_declares_input_channels:
  "\<exists>st. build_loop ONNX_EXPORT pixel_stride bias0 image_size 0
           [ex_conv 1 16, ex_conv 1 32, ex_route [0]] (initial_locals 3) = Inr st
     \<and> loc_output_filters st = [3, 16, 32, 3] \<and> loc_routs st = [0]"
  by (simp add: builder_eval)

lemma route_filters_back1:
  "output_filters \<noteq> [] \<Longrightarrow> route_filters output_filters [- 1] = Inr (last output_filters)"
  by (cases output_filters rule: rev_cases) (simp_all add: route_filters_def py_nth_def)

lemma route_lookup_nonzero:
  assumes "layer \<noteq> 0" "0 \<le> resolve_ref i layer" "resolve_ref i layer < int i"
    and "length output_filters = Suc i"
  shows "py_nth output_filters (if layer > 0 then layer + 1 else layer)
           = Inr (output_filters ! nat (resolve_ref i layer + 1))"
proof (cases "layer > 0")
  case True
  then show ?thesis using assms by (simp add: py_nth_def resolve_ref_def)
next
  case False
  then have neg: "layer < 0" using assms(1) by simp
  have "int (length output_filters) + layer = resolve_ref i layer + 1"
    using neg assms(4) by (simp add: resolve_ref_def)
  then show ?thesis using neg assms by (simp add: py_nth_def resolve_ref_def add.commute add.left_commute)
qed

lemma sum_list_shift: "sum_list (map (\<lambda>x. x + d) xs) = sum_list xs + real (length xs) * (d::real)"
  by (induction xs) (simp_all add: algebra_simps)

lemma mean_shift: "xs \<noteq> [] \<Longrightarrow> mean (map (\<lambda>x. x + d) xs) = mean xs + d"
  by (simp add: mean_def sum_list_shift add_divide_distrib)

lemma row_index_bound:
  assumes "a < rows" "c < w"
  shows "a * w + c < rows * (w::nat)"
proof -
  have "a * w + c < Suc a * w" using assms(2) by simp
  also have "\<dots> \<le> rows * w" using assms(1) by (intro mult_le_mono1) simp
  finally show ?thesis .
qed

lemma row_index_mod: "c < w \<Longrightarrow> (a * w + c) mod w = (c::nat)"
  by simp

lemma shift_bias_means:
  assumes ok: "shift_bias rows (rows * w) bo bc False b = Inr b'"
    and len: "rows * w \<le> length b" and w: "5 < w"
  shows "length b' = length b \<and> drop (rows * w) b' = drop (rows * w) b
       \<and> mean (obj_column rows w b') = bo \<and> mean (cls_block rows w b') = bc"
proof -
  define head where "head = take (rows * w) b"
  have mn: "min (length b) (rows * w) = rows * w" using len by simp
  have lh: "length head = rows * w" by (simp add: head_def mn)
  have rows: "rows \<noteq> 0" using ok by (auto simp add: shift_bias_def Let_def split: if_splits)
  have wd: "rows * w div rows = w" using rows by simp
  define d4 where "d4 = bo - mean (obj_column rows w head)"
  define head1 where
    "head1 = map (\<lambda>k. if k mod w = 4 then head ! k + d4 else head ! k) [0..<rows * w]"
  define dc where "dc = bc - mean (cls_block rows w head1)"
  define head2 where
    "head2 = map (\<lambda>k. if 5 \<le> k mod w then head1 ! k + dc else head1 ! k) [0..<rows * w]"
  have "shift_bias rows (rows * w) bo bc False b = Inr (head2 @ drop (rows * w) b)"
    unfolding head2_def dc_def head1_def d4_def head_def
    using rows w by (simp add: shift_bias_def Let_def mn wd)
  with ok have b': "b' = head2 @ drop (rows * w) b" by simp
  have l2: "length head2 = rows * w" by (simp add: head2_def)
  have nth': "b' ! k = head2 ! k" if "k < rows * w" for k
    using that by (simp add: b' nth_append l2)
  have h1: "head1 ! (a * w + c) = (if c = 4 then head ! (a * w + c) + d4 else head ! (a * w + c))"
    if "a < rows" "c < w" for a c
    using row_index_bound [OF that] row_index_mod [OF that(2)] by (simp add: head1_def)
  have h2: "head2 ! (a * w + c) = (if 5 \<le> c then head1 ! (a * w + c) + dc else head1 ! (a * w + c))"
    if "a < rows" "c < w" for a c
    using row_index_bound [OF that] row_index_mod [OF that(2)] by (simp add: head2_def)
  have w4: "4 < w" using w by simp
  have obj: "obj_column rows w b' = map (\<lambda>x. x + d4) (obj_column rows w head)"
    unfolding obj_column_def
    using row_index_bound [OF _ w4] by (simp add: nth' h2 [OF _ w4] h1 [OF _ w4])
  have objne: "obj_column rows w head \<noteq> []" using rows by (simp add: obj_column_def)
  have m1: "mean (obj_column rows w b') = bo"
    unfolding obj mean_shift [OF objne] by (simp add: d4_def)
  have cls: "cls_block rows w b' = map (\<lambda>x. x + dc) (cls_block rows w head1)"
    unfolding cls_block_def map_concat
    by (rule arg_cong [where f = concat]) (simp add: nth' row_index_bound h2)
  have "length (cls_block rows w head1) = rows * (w - 5)"
    unfolding cls_block_def by (simp add: length_concat comp_def sum_list_triv)
  then have clsne: "cls_block rows w head1 \<noteq> []" using rows w by auto
  have m2: "mean (cls_block rows w b') = bc"
    unfolding cls mean_shift [OF clsne] by (simp add: dc_def)
  have "length b' = length b" using len by (simp add: b' l2)
  moreover have "drop (rows * w) b' = drop (rows * w) b" using l2 by (simp add: b')
  ultimately show ?thesis using m1 m2 by simp
qed

lemma py_nth_py_set:
  "py_nth xs j = Inr m \<Longrightarrow> py_set xs j v = Inr ys \<Longrightarrow> py_nth ys j = Inr v"
  by (auto simp add: py_nth_def py_set_def split: if_splits)

lemma shift_bias_requires_grad: "\<exists>e. shift_bias rows n bo bc True b = Inl e"
  by (simp add: shift_bias_def Let_def)

text \<open>
  A module list in which every bias that \<open>first_bias\<close> can reach requires grad. The
  builder keeps it so: \<^verbatim>\<open>nn.Conv2d\<close> and \<^verbatim>\<open>nn.Linear\<close> create their bias so, and nothing
  in \<^verbatim>\<open>create_modules\<close> clears the flag.
\<close>

lemma smart_bias_init_requires_grad:
  assumes "\<And>m p. m \<in> set ml \<Longrightarrow> first_bias m = Inr p \<Longrightarrow> snd p"
  shows "\<exists>e. smart_bias_init ml y has_from ls yolo_index = Inl e"
proof (cases "real_of_int (nc y) - 99 / 100 \<le> 0")
  case True
  then show ?thesis by (simp add: smart_bias_init_def)
next
  case False
  show ?thesis
  proof (cases "if has_from then py_nth ls yolo_index else Inr (- 1)")
    case (Inl e)
    then show ?thesis using False by (simp add: smart_bias_init_def)
  next
    case j: (Inr j)
    show ?thesis
    proof (cases "py_nth ml j")
      case (Inl e)
      then show ?thesis using False j by (simp add: smart_bias_init_def)
    next
      case m: (Inr m)
      have mem: "m \<in> set ml"
        using m by (auto simp add: py_nth_def split: if_splits)
      show ?thesis
      proof (cases "first_bias m")
        case (Inl e)
        then show ?thesis using False j m by (simp add: smart_bias_init_def)
      next
        case p: (Inr p)
        have g: "snd p" by (rule assms [OF mem p])
        obtain e where "shift_bias (na y) (nat (no y * int (na y))) (- 45 / 10)
                 (ln (1 / (real_of_int (nc y) - 99 / 100))) True (fst p) = Inl e"
          using shift_bias_requires_grad by blast
        then show ?thesis using False j m p g by (simp add: smart_bias_init_def)
      qed
    qed
  qed
qed

lemma build_yolo_keeps_modules:
  assumes "build_yolo ox ps img d st = Inr (m, st')"
    and "\<And>m p. m \<in> set (loc_module_list st) \<Longrightarrow> first_bias m = Inr p \<Longrightarrow> snd p"
  shows "loc_module_list st' = loc_module_list st"
proof -
  have f: "smart_bias_init (loc_module_list st) y hf ls yi \<noteq> Inr ml'" for y hf ls yi ml'
  proof -
    obtain e where "smart_bias_init (loc_module_list st) y hf ls yi = Inl e"
      using smart_bias_init_requires_grad [of "loc_module_list st" y hf ls yi] assms(2) by blast
    then show ?thesis by simp
  qed
  from assms(1) show ?thesis
    unfolding build_yolo_def Let_def ebind_Inr
    using f by (elim exE conjE) (auto split: sum.splits)
qed


text \<open>
  Claim C10. \<^verbatim>\<open>create_modules\<close> leaves the caller's list without its first record and
  with every other entry as it was, whether it returns or raises later; when it
  returns, the module list has the length of what is left. So after
  \<^verbatim>\<open>Darknet.__init__\<close> the attribute \<^verbatim>\<open>module_defines\<close> holds the per-layer specifications
  only, as many as \<^verbatim>\<open>module_list\<close> has modules and \<^verbatim>\<open>routs\<close> has entries.
\<close>

theorem create_modules_pops_hyper_params:
  "fst (create_modules ONNX_EXPORT pixel_stride bias0 parsed image_size) = tl parsed
   \<and> (\<forall>ml rb. snd (create_modules ONNX_EXPORT pixel_stride bias0 parsed image_size)
                  = Inr (ml, rb) \<longrightarrow>
         length ml = length (tl parsed))
   \<and> (\<forall>net. Darknet_init ONNX_EXPORT pixel_stride bias0 parsed image_size = Inr net \<longrightarrow>
         module_defines net = tl parsed
       \<and> length (module_list net) = length (module_defines net)
       \<and> length (routs net) = length (module_list net))"
proof -
  let ?r = "create_modules ONNX_EXPORT pixel_stride bias0 parsed image_size"
  have a: "fst ?r = tl parsed" by (rule create_modules_defines)
  have b: "length ml = length (tl parsed)" if "snd ?r = Inr (ml, rb)" for ml rb
    using create_modules_lengths [OF that] by simp
  have c: "module_defines net = tl parsed
       \<and> length (module_list net) = length (module_defines net)
       \<and> length (routs net) = length (module_list net)"
    if d: "Darknet_init ONNX_EXPORT pixel_stride bias0 parsed image_size = Inr net" for net
  proof -
    obtain defs res where r: "?r = (defs, res)" by (cases ?r)
    from d r obtain ml rb ys where res: "res = Inr (ml, rb)"
      and net: "net = \<lparr>module_defines = defs, module_list = ml, routs = rb, yolo_layers = ys,
                       version = [0, 2, 5], seen = [0], net_training = True\<rparr>"
      by (auto simp add: Darknet_init_def ebind_Inr split: sum.splits)
    have "defs = tl parsed" using a r by simp
    moreover have "length ml = length (tl parsed) \<and> length rb = length ml"
      using create_modules_lengths [of ONNX_EXPORT pixel_stride bias0 parsed image_size ml rb]
        r res by simp
    ultimately show ?thesis using net by simp
  qed
  show ?thesis using a b c by blast
qed

theorem create_modules_pops_hyper_params_witness:
  "\<exists>net. Darknet_init False (\<lambda>i g. 32) (\<lambda>i n. [])
            [ex_hyper, ex_conv 1 16, ex_route [- 1]] [416, 416] = Inr net
     \<and> fst (create_modules False (\<lambda>i g. 32) (\<lambda>i n. [])
              [ex_hyper, ex_conv 1 16, ex_route [- 1]] [416, 416]) = [ex_conv 1 16, ex_route [- 1]]
     \<and> module_defines net = [ex_conv 1 16, ex_route [- 1]]
     \<and> length (module_list net) = 2 \<and> length (routs net) = 2"
proof -
  have "\<exists>net. Darknet_init False (\<lambda>i g. 32) (\<lambda>i n. [])
            [ex_hyper, ex_conv 1 16, ex_route [- 1]] [416, 416] = Inr net"
    by (simp add: Darknet_init_def get_yolo_layers_def builder_eval)
  then obtain net where d: "Darknet_init False (\<lambda>i g. 32) (\<lambda>i n. [])
            [ex_hyper, ex_conv 1 16, ex_route [- 1]] [416, 416] = Inr net" ..
  note t = create_modules_pops_hyper_params [of False "\<lambda>i g. 32" "\<lambda>i n. []"
      "[ex_hyper, ex_conv 1 16, ex_route [- 1]]" "[416, 416]"]
  note a = t [THEN conjunct1]
  note c = t [THEN conjunct2, THEN conjunct2, rule_format, OF d]
  have "fst (create_modules False (\<lambda>i g. 32) (\<lambda>i n. [])
              [ex_hyper, ex_conv 1 16, ex_route [- 1]] [416, 416]) = [ex_conv 1 16, ex_route [- 1]]"
    using a by simp
  moreover have "module_defines net = [ex_conv 1 16, ex_route [- 1]]"
    "length (module_list net) = 2" "length (routs net) = 2"
    using c by simp_all
  ultimately show ?thesis using d by blast
qed

section \<open>Properties of the forward pass\<close>










section \<open>Properties of the training loop\<close>







end
